theory Spec2Isabelle
  imports Complex_Main
begin

section \<open>Values exchanged with the outside world\<close>

text \<open>
  Webhook payloads and the results of the payment-platform client are Python values
  decoded from JSON: \<open>None\<close>, booleans, integers, strings, lists and dicts. A dict is an
  association list whose first binding of a key is the dict's value for it.
\<close>

datatype json =
    JNull
  | JBool bool
  | JNum int
  | JStr string
  | JArr "json list"
  | JObj "(string \<times> json) list"

type_synonym pydict = "(string \<times> json) list"

text \<open>Python truthiness (\<open>if x\<close>, \<open>not x\<close>, \<open>x or y\<close>).\<close>

fun truthy :: "json \<Rightarrow> bool" where
  "truthy JNull = False"
| "truthy (JBool b) = b"
| "truthy (JNum n) = (n \<noteq> 0)"
| "truthy (JStr s) = (s \<noteq> [])"
| "truthy (JArr xs) = (xs \<noteq> [])"
| "truthy (JObj kvs) = (kvs \<noteq> [])"

datatype py_error = AttributeError

text \<open>
  \<open>x.get(k, default)\<close>: only a dict has \<open>get\<close>; on any other value the attribute
  lookup raises AttributeError.
\<close>

fun dict_get :: "json \<Rightarrow> string \<Rightarrow> json \<Rightarrow> py_error + json" where
  "dict_get (JObj kvs) k dflt = Inr (case map_of kvs k of None \<Rightarrow> dflt | Some v \<Rightarrow> v)"
| "dict_get _ k dflt = Inl AttributeError"

text \<open>\<open>res.get(k)\<close> on a value known to be a dict (the platform client's results).\<close>

definition res_get :: "pydict \<Rightarrow> string \<Rightarrow> json" where
  "res_get res k = (case map_of res k of None \<Rightarrow> JNull | Some v \<Rightarrow> v)"

text \<open>\<open>k in res\<close>.\<close>

definition has_key :: "pydict \<Rightarrow> string \<Rightarrow> bool" where
  "has_key res k = (map_of res k \<noteq> None)"

text \<open>Truthiness of an optional string column or field (\<open>None\<close> and \<open>""\<close> are false).\<close>

fun truthy_str :: "string option \<Rightarrow> bool" where
  "truthy_str None = False"
| "truthy_str (Some s) = (s \<noteq> [])"

section \<open>The relational store\<close>

text \<open>
  Dates are proleptic ordinals (\<open>date.toordinal()\<close>); the clock is an input of every
  handler that reads it. Currency amounts stored as floats are modelled by the
  rational numbers they denote.
\<close>

type_synonym date = int

text \<open>
  The columns of Customer that the handlers below read or write. The contact columns are
  only passed on to the platform and are left out.
\<close>

record customer =
  c_id :: int
  square_customer_id :: "string option"
  square_subscription_id :: "string option"
  subscription_active :: bool
  subscription_status :: string
  failed_payment_attempts :: "int option"
  plan_id :: "string option"
  plan_variation_id :: "string option"

record subscription_plan =
  p_id :: int
  plan_name :: string
  plan_cost :: rat
  p_plan_variation_id :: string

record payment =
  pay_customer_id :: int
  pay_amount :: rat
  pay_status :: string
  square_transaction_id :: json

record payment_method =
  pm_customer_id :: int
  square_card_id :: json
  last_4_digits :: json
  card_brand :: json
  exp_month :: json
  exp_year :: json
  is_default :: bool

record subscription_log =
  log_customer_id :: int
  log_subscription_id :: "string option"
  action :: string
  effective_date :: date

record invoice =
  square_invoice_id :: "string option"
  inv_customer_id :: int
  inv_subscription_id :: "string option"
  inv_amount :: rat
  inv_status :: "string option"
  due_date :: date
  inv_public_url :: "string option"

record db =
  customers :: "customer list"
  subscription_plans :: "subscription_plan list"
  payments :: "payment list"
  payment_methods :: "payment_method list"
  subscription_logs :: "subscription_log list"
  invoices :: "invoice list"

text \<open>
  \<open>query.filter(P).first()\<close> is \<^const>\<open>find\<close> on the table; assigning to the attributes
  of the row object it returned rewrites that row, the first one satisfying \<open>P\<close>, where
  it stands.
\<close>

fun map_first :: "('a \<Rightarrow> bool) \<Rightarrow> ('a \<Rightarrow> 'a) \<Rightarrow> 'a list \<Rightarrow> 'a list" where
  "map_first P f [] = []"
| "map_first P f (x # xs) = (if P x then f x # xs else x # map_first P f xs)"

section \<open>Webhook reconciliation (routers/webhooks.py)\<close>

text \<open>
  Both handlers start with the same lines: walk
  \<open>data.object.invoice.primary_recipient.customer_id\<close> with \<open>.get(k, {})\<close>, the last
  step with \<open>.get("customer_id")\<close>.
\<close>

definition and_get :: "py_error + json \<Rightarrow> string \<Rightarrow> json \<Rightarrow> py_error + json" where
  "and_get r k dflt = (case r of Inl e \<Rightarrow> Inl e | Inr v \<Rightarrow> dict_get v k dflt)"

definition payload_customer_id :: "json \<Rightarrow> py_error + json" where
  "payload_customer_id data =
     and_get (and_get (and_get (and_get (dict_get data ''data'' (JObj []))
       ''object'' (JObj [])) ''invoice'' (JObj [])) ''primary_recipient'' (JObj []))
       ''customer_id'' JNull"

text \<open>
  \<open>db.query(Customer).filter(Customer.square_customer_id == s).first()\<close> looks for the
  first row with this predicate.
\<close>

definition by_square_id :: "string \<Rightarrow> customer \<Rightarrow> bool" where
  "by_square_id s c = (square_customer_id c = Some s)"

definition suspend_log :: "date \<Rightarrow> customer \<Rightarrow> subscription_log" where
  "suspend_log today c =
     \<lparr>log_customer_id = c_id c, log_subscription_id = square_subscription_id c,
      action = ''SUSPEND'', effective_date = today\<rparr>"

definition reactivate_log :: "date \<Rightarrow> customer \<Rightarrow> subscription_log" where
  "reactivate_log today c =
     \<lparr>log_customer_id = c_id c, log_subscription_id = square_subscription_id c,
      action = ''REACTIVATE'', effective_date = today\<rparr>"

text \<open>
  \<open>handle_payment_failed\<close>. The whole body is inside \<open>try ... except Exception\<close> with a
  rollback, so every raise gives the store back unchanged; the function returns nothing.
\<close>

definition handle_payment_failed :: "date \<Rightarrow> json \<Rightarrow> db \<Rightarrow> db" where
  "handle_payment_failed today data d =
     (case payload_customer_id data of
        Inl e \<Rightarrow> d
      | Inr sq_customer_id \<Rightarrow>
          if \<not> truthy sq_customer_id then d
          else (case sq_customer_id of
                  JStr s \<Rightarrow>
                    (case find (by_square_id s) (customers d) of
                       None \<Rightarrow> d
                     | Some customer \<Rightarrow>
                         let current_attempts =
                               (case failed_payment_attempts customer of
                                  None \<Rightarrow> 0 | Some n \<Rightarrow> n);
                             c1 = customer\<lparr>failed_payment_attempts :=
                                             Some (current_attempts + 1)\<rparr>
                         in if current_attempts + 1 \<ge> 3
                               \<and> subscription_status c1 \<noteq> ''SUSPENDED''
                            then d\<lparr>customers :=
                                     map_first (by_square_id s)
                                       (\<lambda>_. c1\<lparr>subscription_status := ''SUSPENDED'',
                                                subscription_active := False\<rparr>)
                                       (customers d),
                                   subscription_logs :=
                                     subscription_logs d @ [suspend_log today customer]\<rparr>
                            else d\<lparr>customers :=
                                     map_first (by_square_id s) (\<lambda>_. c1) (customers d)\<rparr>)
                | _ \<Rightarrow> d))"

text \<open>
  \<open>handle_payment_success\<close>, under the same \<open>try ... except\<close>. Comparing a \<open>None\<close>
  counter with \<open>0\<close> raises TypeError, which the handler swallows.
\<close>

definition handle_payment_success :: "date \<Rightarrow> json \<Rightarrow> db \<Rightarrow> db" where
  "handle_payment_success today data d =
     (case payload_customer_id data of
        Inl e \<Rightarrow> d
      | Inr sq_customer_id \<Rightarrow>
          if \<not> truthy sq_customer_id then d
          else (case sq_customer_id of
                  JStr s \<Rightarrow>
                    (case find (by_square_id s) (customers d) of
                       None \<Rightarrow> d
                     | Some customer \<Rightarrow>
                         (case failed_payment_attempts customer of
                            None \<Rightarrow> d
                          | Some n \<Rightarrow>
                              let c1 = (if n > 0
                                        then customer\<lparr>failed_payment_attempts := Some 0\<rparr>
                                        else customer)
                              in if subscription_status c1 = ''SUSPENDED''
                                 then d\<lparr>customers :=
                                          map_first (by_square_id s)
                                            (\<lambda>_. c1\<lparr>subscription_status := ''ACTIVE'',
                                                     subscription_active := True\<rparr>)
                                            (customers d),
                                        subscription_logs :=
                                          subscription_logs d @ [reactivate_log today customer]\<rparr>
                                 else d\<lparr>customers :=
                                          map_first (by_square_id s) (\<lambda>_. c1) (customers d)\<rparr>))
                | _ \<Rightarrow> d))"

text \<open>
  \<open>str(e)\<close> of the AttributeError that \<open>x.get\<close> raises on a value that is not a dict:
  \<open>'list' object has no attribute 'get'\<close>, with the name of the value's type.
\<close>

fun type_name :: "json \<Rightarrow> string" where
  "type_name JNull = ''NoneType''"
| "type_name (JBool b) = ''bool''"
| "type_name (JNum n) = ''int''"
| "type_name (JStr s) = ''str''"
| "type_name (JArr xs) = ''list''"
| "type_name (JObj kvs) = ''dict''"

definition no_attribute_get :: "json \<Rightarrow> string" where
  "no_attribute_get v =
     [CHR 0x27] @ type_name v @ [CHR 0x27] @ '' object has no attribute ''
       @ [CHR 0x27] @ ''get'' @ [CHR 0x27]"

text \<open>
  What \<open>await request.json()\<close> does with the request body: it returns the decoded value,
  or it raises, and then \<open>str(e)\<close> of what it raised is the text given here.
\<close>

datatype request_json = Raises string | Returns json

text \<open>
  \<open>square_webhook\<close>. A handler that returns a dict is answered with HTTP 200 by the
  framework; both \<open>return\<close>s of the function do. The second one, in the \<open>except\<close> branch,
  carries \<open>str(e)\<close> as its message.
\<close>

record response =
  status_code :: nat
  body :: pydict

definition square_webhook :: "date \<Rightarrow> request_json \<Rightarrow> db \<Rightarrow> response \<times> db" where
  "square_webhook today request d =
     (case request of
        Raises msg \<Rightarrow>
          (\<lparr>status_code = 200, body = [(''status'', JStr ''error''), (''message'', JStr msg)]\<rparr>,
           d)
      | Returns data \<Rightarrow>
          (case dict_get data ''type'' JNull of
             Inl e \<Rightarrow>
               (\<lparr>status_code = 200,
                 body = [(''status'', JStr ''error''),
                         (''message'', JStr (no_attribute_get data))]\<rparr>,
                d)
           | Inr event_type \<Rightarrow>
               (\<lparr>status_code = 200, body = [(''status'', JStr ''success'')]\<rparr>,
                if event_type = JStr ''invoice.payment_failed''
                  then handle_payment_failed today data d
                else if event_type = JStr ''invoice.payment_made''
                  then handle_payment_success today data d
                else d)))"

text \<open>
  A notification of type \<open>ty\<close> whose recipient is the platform customer \<open>s\<close>.
\<close>

definition notifies :: "string \<Rightarrow> string \<Rightarrow> json \<Rightarrow> bool" where
  "notifies ty s data =
     (dict_get data ''type'' JNull = Inr (JStr ty) \<and> payload_customer_id data = Inr (JStr s))"

text \<open>The request body decodes to a JSON object (a dict).\<close>

fun is_object :: "request_json \<Rightarrow> bool" where
  "is_object (Returns (JObj kvs)) = True"
| "is_object _ = False"

section \<open>Subscription lifecycle forwarding (routers/payment.py, routers/admin.py)\<close>

text \<open>
  \<open>raise HTTPException(status_code=n, ...)\<close>; the detail text is left out. A handler
  returns what it answers together with the store it leaves behind: an exception raised
  after a commit keeps what was committed.
\<close>

datatype http_error = HTTPException nat

definition by_id :: "int \<Rightarrow> customer \<Rightarrow> bool" where
  "by_id i c = (c_id c = i)"

text \<open>
  Modelled from the spec: \<open>utils/deps.py\<close> (\<open>get_db_user\<close>) is not among the sources. The
  dependency hands the handler the Customer row of the authenticated caller, named here
  by the row's primary key; a caller without a row is a missing customer (404) and the
  handler does not run.
\<close>

definition get_db_user :: "int \<Rightarrow> db \<Rightarrow> http_error + customer" where
  "get_db_user uid d =
     (case find (by_id uid) (customers d) of
        None \<Rightarrow> Inl (HTTPException 404)
      | Some user \<Rightarrow> Inr user)"

text \<open>\<open>db.query(Customer).get(customer_id)\<close>: the row with this primary key, or \<open>None\<close>.\<close>

definition get_customer :: "int \<Rightarrow> db \<Rightarrow> customer option" where
  "get_customer i d = find (by_id i) (customers d)"

definition set_customer :: "int \<Rightarrow> customer \<Rightarrow> db \<Rightarrow> db" where
  "set_customer i c d = d\<lparr>customers := map_first (by_id i) (\<lambda>_. c) (customers d)\<rparr>"

definition add_log :: "subscription_log \<Rightarrow> db \<Rightarrow> db" where
  "add_log l d = d\<lparr>subscription_logs := subscription_logs d @ [l]\<rparr>"

text \<open>A string read from a platform result; the results hold strings where the code
  stores them in string columns.\<close>

fun as_str :: "json \<Rightarrow> string option" where
  "as_str (JStr s) = Some s"
| "as_str _ = None"

text \<open>
  \<open>dummy_create_subscription\<close>: no platform call; the two identifiers are made from
  fresh \<open>uuid4\<close> hex digits, given here as \<open>h1\<close> and \<open>h2\<close>.
\<close>

definition dummy_create_subscription :: "string \<Rightarrow> string \<Rightarrow> pydict" where
  "dummy_create_subscription h1 h2 =
     [(''success'', JBool True),
      (''subscription_id'', JStr (''dummy_sub_'' @ h1)),
      (''subscription'', JObj [(''status'', JStr ''ACTIVE''), (''id'', JStr (''dummy_sub_'' @ h2))])]"

text \<open>
  \<open>activate_sub\<close>. \<open>request.customer_id\<close> is an optional integer, \<open>0\<close> being false like
  \<open>None\<close>.
\<close>

definition activate_sub ::
  "date \<Rightarrow> string \<Rightarrow> string \<Rightarrow> string \<Rightarrow> int option \<Rightarrow> db \<Rightarrow> (http_error + pydict) \<times> db" where
  "activate_sub today h1 h2 request_plan_variation_id request_customer_id d =
     (let customer = (case request_customer_id of
                        None \<Rightarrow> None
                      | Some i \<Rightarrow> if i = 0 then None else get_customer i d);
          sq_customer_id = (case customer of None \<Rightarrow> None | Some c \<Rightarrow> square_customer_id c)
      in if \<not> truthy_str sq_customer_id then (Inl (HTTPException 400), d)
         else
           let res = dummy_create_subscription h1 h2
           in if \<not> truthy (res_get res ''success'') then (Inl (HTTPException 400), d)
              else (case customer of
                      None \<Rightarrow> (Inr res, d)
                    | Some c \<Rightarrow>
                        let c1 = c\<lparr>square_subscription_id := as_str (res_get res ''subscription_id''),
                                   subscription_active := True,
                                   subscription_status := ''ACTIVE''\<rparr>;
                            d1 = set_customer (c_id c) c1 d;
                            d2 = (case find (\<lambda>p. p_plan_variation_id p = request_plan_variation_id)
                                         (subscription_plans d1) of
                                    None \<Rightarrow> d1
                                  | Some plan \<Rightarrow>
                                      d1\<lparr>payments := payments d1 @
                                          [\<lparr>pay_customer_id = c_id c, pay_amount = plan_cost plan,
                                            pay_status = ''PAID'',
                                            square_transaction_id = res_get res ''subscription_id''\<rparr>]\<rparr>)
                        in (Inr res,
                            add_log \<lparr>log_customer_id = c_id c,
                                     log_subscription_id = as_str (res_get res ''subscription_id''),
                                     action = ''ACTIVATE'', effective_date = today\<rparr> d2)))"

text \<open>
  \<open>pause_sub\<close>, \<open>resume_sub\<close>, \<open>cancel_sub\<close> and \<open>change_plan\<close>. \<open>res\<close> is what the platform
  client answers to the forwarded call.
\<close>

definition pause_sub :: "date \<Rightarrow> pydict \<Rightarrow> int \<Rightarrow> db \<Rightarrow> (http_error + pydict) \<times> db" where
  "pause_sub today res uid d =
     (case get_db_user uid d of
        Inl e \<Rightarrow> (Inl e, d)
      | Inr user \<Rightarrow>
          if \<not> truthy_str (square_subscription_id user) then (Inl (HTTPException 404), d)
          else if has_key res ''errors'' then (Inl (HTTPException 400), d)
          else (Inr res,
                add_log \<lparr>log_customer_id = c_id user,
                         log_subscription_id = square_subscription_id user,
                         action = ''PAUSE'', effective_date = today\<rparr>
                  (set_customer uid (user\<lparr>subscription_status := ''PAUSED''\<rparr>) d)))"

definition resume_sub :: "date \<Rightarrow> pydict \<Rightarrow> int \<Rightarrow> db \<Rightarrow> (http_error + pydict) \<times> db" where
  "resume_sub today res uid d =
     (case get_db_user uid d of
        Inl e \<Rightarrow> (Inl e, d)
      | Inr user \<Rightarrow>
          if \<not> truthy_str (square_subscription_id user) then (Inl (HTTPException 404), d)
          else if has_key res ''errors'' then (Inl (HTTPException 400), d)
          else (Inr res,
                add_log \<lparr>log_customer_id = c_id user,
                         log_subscription_id = square_subscription_id user,
                         action = ''RESUME'', effective_date = today\<rparr>
                  (set_customer uid (user\<lparr>subscription_status := ''ACTIVE''\<rparr>) d)))"

definition cancel_sub :: "date \<Rightarrow> pydict \<Rightarrow> int \<Rightarrow> db \<Rightarrow> (http_error + pydict) \<times> db" where
  "cancel_sub today res uid d =
     (case get_db_user uid d of
        Inl e \<Rightarrow> (Inl e, d)
      | Inr user \<Rightarrow>
          if \<not> truthy_str (square_subscription_id user) then (Inl (HTTPException 404), d)
          else if \<not> truthy (res_get res ''success'') then (Inl (HTTPException 400), d)
          else (Inr res,
                add_log \<lparr>log_customer_id = c_id user,
                         log_subscription_id = square_subscription_id user,
                         action = ''CANCEL'', effective_date = today\<rparr>
                  (set_customer uid (user\<lparr>subscription_active := False,
                                          subscription_status := ''CANCELED''\<rparr>) d)))"

definition change_plan :: "pydict \<Rightarrow> int \<Rightarrow> db \<Rightarrow> (http_error + pydict) \<times> db" where
  "change_plan res uid d =
     (case get_db_user uid d of
        Inl e \<Rightarrow> (Inl e, d)
      | Inr user \<Rightarrow>
          if \<not> truthy_str (square_subscription_id user) then (Inl (HTTPException 404), d)
          else if \<not> truthy (res_get res ''success'') then (Inl (HTTPException 400), d)
          else (Inr res, d))"

text \<open>
  The admin routes. \<open>current_user\<close> is the decoded token, a dict; only its role is read.
\<close>

definition is_admin :: "pydict \<Rightarrow> bool" where
  "is_admin current_user = (res_get current_user ''role'' = JStr ''admin'')"

definition cancel_customer_subscription ::
  "date \<Rightarrow> pydict \<Rightarrow> pydict \<Rightarrow> int \<Rightarrow> db \<Rightarrow> (http_error + pydict) \<times> db" where
  "cancel_customer_subscription today current_user res customer_id d =
     (if \<not> is_admin current_user then (Inl (HTTPException 403), d)
      else (case get_customer customer_id d of
              None \<Rightarrow> (Inl (HTTPException 404), d)
            | Some customer \<Rightarrow>
                if \<not> truthy_str (square_subscription_id customer)
                  then (Inl (HTTPException 404), d)
                else if \<not> truthy (res_get res ''subscription'')
                  then (Inl (HTTPException 400), d)
                else (Inr [(''success'', JBool True), (''message'', JStr ''Subscription canceled'')],
                      add_log \<lparr>log_customer_id = c_id customer,
                               log_subscription_id = square_subscription_id customer,
                               action = ''CANCEL'', effective_date = today\<rparr>
                        (set_customer customer_id
                           (customer\<lparr>subscription_active := False,
                                     subscription_status := ''CANCELED''\<rparr>) d))))"

text \<open>\<open>str(n)\<close> of an integer: its decimal digits.\<close>

fun str_nat :: "nat \<Rightarrow> string" where
  "str_nat n = (if n < 10 then [char_of (48 + n)]
                else str_nat (n div 10) @ [char_of (48 + n mod 10)])"

definition str_int :: "int \<Rightarrow> string" where
  "str_int i = (if i < 0 then CHR ''-'' # str_nat (nat (- i)) else str_nat (nat i))"

definition admin_change_subscription ::
  "date \<Rightarrow> pydict \<Rightarrow> pydict \<Rightarrow> string \<Rightarrow> int \<Rightarrow> db \<Rightarrow> (http_error + pydict) \<times> db" where
  "admin_change_subscription today current_user res new_plan_variation_id customer_id d =
     (if \<not> is_admin current_user then (Inl (HTTPException 403), d)
      else (case get_customer customer_id d of
              None \<Rightarrow> (Inl (HTTPException 404), d)
            | Some customer \<Rightarrow>
                if \<not> truthy_str (square_subscription_id customer)
                  then (Inl (HTTPException 400), d)
                else if \<not> truthy (res_get res ''success'')
                  then (Inl (HTTPException 400), d)
                else
                  (Inr [(''success'', JBool True),
                        (''message'', JStr ''Subscription updated successfully'')],
                   case find (\<lambda>p. p_plan_variation_id p = new_plan_variation_id)
                          (subscription_plans d) of
                     None \<Rightarrow> d
                   | Some plan \<Rightarrow>
                       add_log \<lparr>log_customer_id = c_id customer,
                                log_subscription_id = square_subscription_id customer,
                                action = ''ACTIVATE'', effective_date = today\<rparr>
                         (set_customer customer_id
                            (customer\<lparr>plan_id := Some (str_int (p_id plan)),
                                      plan_variation_id := Some new_plan_variation_id\<rparr>) d))))"

section \<open>Saved cards (routers/payment.py)\<close>

text \<open>
  The PaymentMethod row both handlers build from the platform's answer to
  \<open>create_card_on_file\<close>.
\<close>

definition new_method :: "int \<Rightarrow> pydict \<Rightarrow> payment_method" where
  "new_method cid card_res =
     \<lparr>pm_customer_id = cid,
      square_card_id = res_get card_res ''card_id'',
      last_4_digits = res_get card_res ''last_4'',
      card_brand = res_get card_res ''brand'',
      exp_month = res_get card_res ''exp_month'',
      exp_year = res_get card_res ''exp_year'',
      is_default = True\<rparr>"

text \<open>
  \<open>db.query(PaymentMethod).filter(PaymentMethod.customer_id == cid).update({"is_default":
  False})\<close>: every row of that customer.
\<close>

definition clear_default :: "int \<Rightarrow> payment_method list \<Rightarrow> payment_method list" where
  "clear_default cid pms =
     map (\<lambda>m. if pm_customer_id m = cid then m\<lparr>is_default := False\<rparr> else m) pms"

text \<open>
  \<open>validate_card\<close>. \<open>cust_res\<close> is the platform's answer to \<open>create_square_customer\<close>, asked
  only when no platform customer id is known; \<open>card_res\<close> the answer to
  \<open>create_card_on_file\<close>. The new platform customer id is committed before the card is
  attached and stays when attaching fails.
\<close>

definition validate_card ::
  "pydict \<Rightarrow> pydict \<Rightarrow> int option \<Rightarrow> db \<Rightarrow> (http_error + pydict) \<times> db" where
  "validate_card cust_res card_res request_customer_id d =
     (let customer = (case request_customer_id of
                        None \<Rightarrow> None
                      | Some i \<Rightarrow> if i = 0 then None else get_customer i d);
          known = (case customer of None \<Rightarrow> None | Some c \<Rightarrow> square_customer_id c)
      in if \<not> truthy_str known \<and> \<not> truthy (res_get cust_res ''success'')
           then (Inl (HTTPException 400), d)
         else
           let sq_customer_id = (if truthy_str known then JStr (the known)
                                 else res_get cust_res ''customer_id'');
               d1 = (if truthy_str known then d
                     else case customer of
                            None \<Rightarrow> d
                          | Some c \<Rightarrow>
                              set_customer (c_id c)
                                (c\<lparr>square_customer_id :=
                                     as_str (res_get cust_res ''customer_id'')\<rparr>) d)
           in if \<not> truthy (res_get card_res ''success'') then (Inl (HTTPException 400), d1)
              else (Inr [(''success'', JBool True),
                         (''card_id'', res_get card_res ''card_id''),
                         (''customer_id'', sq_customer_id),
                         (''card_details'', JObj card_res)],
                    case customer of
                      None \<Rightarrow> d1
                    | Some c \<Rightarrow>
                        d1\<lparr>payment_methods :=
                             clear_default (c_id c) (payment_methods d1)
                               @ [new_method (c_id c) card_res]\<rparr>))"

text \<open>
  \<open>save_card\<close>. The answer of \<open>update_subscription_card\<close> is not looked at and nothing
  local depends on it.
\<close>

definition save_card :: "pydict \<Rightarrow> pydict \<Rightarrow> int \<Rightarrow> db \<Rightarrow> (http_error + pydict) \<times> db" where
  "save_card cust_res card_res uid d =
     (case get_db_user uid d of
        Inl e \<Rightarrow> (Inl e, d)
      | Inr user \<Rightarrow>
          if \<not> truthy_str (square_customer_id user) \<and> \<not> truthy (res_get cust_res ''success'')
            then (Inl (HTTPException 400), d)
          else
            let d1 = (if truthy_str (square_customer_id user) then d
                      else set_customer uid
                             (user\<lparr>square_customer_id :=
                                     as_str (res_get cust_res ''customer_id'')\<rparr>) d)
            in if \<not> truthy (res_get card_res ''success'') then (Inl (HTTPException 400), d1)
               else (Inr [(''success'', JBool True),
                          (''message'', JStr ''Payment method saved successfully''),
                          (''card_id'', res_get card_res ''card_id'')],
                     d1\<lparr>payment_methods :=
                          clear_default (c_id user) (payment_methods d1)
                            @ [new_method (c_id user) card_res]\<rparr>))"

text \<open>The rows of customer \<open>cid\<close> that are flagged as default.\<close>

definition defaults_of :: "int \<Rightarrow> payment_method list \<Rightarrow> payment_method list" where
  "defaults_of cid pms = filter (\<lambda>m. pm_customer_id m = cid \<and> is_default m) pms"

section \<open>Admin analytics: growth history (routers/admin.py)\<close>

record growth_item =
  g_date :: string
  g_customers :: int
  g_revenue :: rat

text \<open>
  \<open>growth_map.get(d_str, 0)\<close> for the \<open>i\<close>-th day of the window. \<open>day i\<close> is
  \<open>(thirty_days_ago + timedelta(days=i)).strftime("%Y-%m-%d")\<close>; the dicts are keyed by
  such strings.
\<close>

definition daily_new :: "(nat \<Rightarrow> string) \<Rightarrow> (string \<rightharpoonup> int) \<Rightarrow> nat \<Rightarrow> int" where
  "daily_new day growth_map i = (case growth_map (day i) of None \<Rightarrow> 0 | Some c \<Rightarrow> c)"

definition daily_rev :: "(nat \<Rightarrow> string) \<Rightarrow> (string \<rightharpoonup> rat) \<Rightarrow> nat \<Rightarrow> rat" where
  "daily_rev day revenue_map i = (case revenue_map (day i) of None \<Rightarrow> 0 | Some t \<Rightarrow> t)"

text \<open>The body of \<open>for i in range(31)\<close>, with \<open>current_total\<close> and the list built so far.\<close>

fun growth_loop ::
  "(nat \<Rightarrow> string) \<Rightarrow> (string \<rightharpoonup> int) \<Rightarrow> (string \<rightharpoonup> rat) \<Rightarrow> nat list \<Rightarrow> int \<Rightarrow>
   growth_item list \<Rightarrow> growth_item list" where
  "growth_loop day growth_map revenue_map [] current_total growth_history = growth_history"
| "growth_loop day growth_map revenue_map (i # rest) current_total growth_history =
     (let total = current_total + daily_new day growth_map i
      in growth_loop day growth_map revenue_map rest total
           (growth_history @
              [\<lparr>g_date = day i, g_customers = total,
                g_revenue = daily_rev day revenue_map i\<rparr>]))"

definition growth_history ::
  "(nat \<Rightarrow> string) \<Rightarrow> (string \<rightharpoonup> int) \<Rightarrow> (string \<rightharpoonup> rat) \<Rightarrow> int \<Rightarrow> growth_item list" where
  "growth_history day growth_map revenue_map count_before =
     growth_loop day growth_map revenue_map [0..<31] count_before []"

section \<open>Invoice synchronization (routers/admin.py)\<close>

text \<open>
  A remote invoice as the platform's invoice schema has it: a field is absent (\<open>None\<close>) or
  holds a value of its declared type; money amounts are integers in minor units. A Money
  dict is empty, and so false, when it has neither field.
\<close>

record money =
  m_amount :: "int option"
  m_currency :: "string option"

record payment_request =
  computed_amount_money :: "money option"

record sq_invoice =
  sq_id :: "string option"
  payment_requests :: "payment_request list option"
  next_payment_amount_money :: "money option"
  sq_subscription_id :: "string option"
  sq_status :: "string option"
  sq_public_url :: "string option"
  scheduled_at :: "string option"
  created_at :: "string option"

definition empty_money :: money where
  "empty_money = \<lparr>m_amount = None, m_currency = None\<rparr>"

definition money_truthy :: "money \<Rightarrow> bool" where
  "money_truthy m = (m_amount m \<noteq> None \<or> m_currency m \<noteq> None)"

text \<open>Lines 513 to 519: the amount of one remote invoice.\<close>

definition invoice_amount :: "sq_invoice \<Rightarrow> rat" where
  "invoice_amount sq_inv =
     (let amount_data0 =
            (case payment_requests sq_inv of
               None \<Rightarrow> empty_money
             | Some [] \<Rightarrow> empty_money
             | Some (r # rs) \<Rightarrow>
                 (case computed_amount_money r of None \<Rightarrow> empty_money | Some m \<Rightarrow> m));
          amount_unset = (case m_amount amount_data0 of None \<Rightarrow> True | Some a \<Rightarrow> a = 0);
          amount_data =
            (case next_payment_amount_money sq_inv of
               None \<Rightarrow> amount_data0
             | Some nm \<Rightarrow> if amount_unset \<and> money_truthy nm then nm else amount_data0)
      in of_int (case m_amount amount_data of None \<Rightarrow> 0 | Some a \<Rightarrow> a) / 100)"

text \<open>
  The clock and the two library parsers the due date goes through; a parser gives the
  date of what it parsed, or \<open>None\<close> where it raises.
\<close>

record env =
  now_date :: date
  now_iso :: string
  fromisoformat :: "string \<Rightarrow> date option"
  strptime_ymd :: "string \<Rightarrow> date option"

definition replace_Z :: "string \<Rightarrow> string" where
  "replace_Z s = concat (map (\<lambda>ch. if ch = CHR ''Z'' then ''+00:00'' else [ch]) s)"

definition invoice_due_date :: "env \<Rightarrow> sq_invoice \<Rightarrow> date" where
  "invoice_due_date e sq_inv =
     (let due_date_str =
            (if truthy_str (scheduled_at sq_inv) then the (scheduled_at sq_inv)
             else case created_at sq_inv of None \<Rightarrow> now_iso e | Some c \<Rightarrow> c)
      in case (if CHR ''T'' \<in> set due_date_str
               then fromisoformat e (replace_Z due_date_str)
               else strptime_ymd e due_date_str) of
           None \<Rightarrow> now_date e
         | Some dt \<Rightarrow> dt)"

definition by_invoice_id :: "string option \<Rightarrow> invoice \<Rightarrow> bool" where
  "by_invoice_id inv_id r = (square_invoice_id r = inv_id)"

definition new_inv :: "env \<Rightarrow> int \<Rightarrow> sq_invoice \<Rightarrow> invoice" where
  "new_inv e cid sq_inv =
     \<lparr>square_invoice_id = sq_id sq_inv,
      inv_customer_id = cid,
      inv_subscription_id = sq_subscription_id sq_inv,
      inv_amount = invoice_amount sq_inv,
      inv_status = sq_status sq_inv,
      due_date = invoice_due_date e sq_inv,
      inv_public_url = sq_public_url sq_inv\<rparr>"

definition update_existing :: "sq_invoice \<Rightarrow> invoice \<Rightarrow> invoice" where
  "update_existing sq_inv existing =
     existing\<lparr>inv_status := sq_status sq_inv,
              inv_public_url := sq_public_url sq_inv,
              inv_amount := invoice_amount sq_inv\<rparr>"

text \<open>
  The body of \<open>for sq_inv in sq_invoices\<close>. The session is made with
  \<open>autoflush=False\<close> (db/init.py), so the query sees the rows of the table, with the
  attribute changes made so far, and not the rows added in this run, which wait in the
  session until the commit. The state is the table, the added rows and \<open>synced_count\<close>.
\<close>

definition sync_step ::
  "env \<Rightarrow> int \<Rightarrow> invoice list \<times> invoice list \<times> nat \<Rightarrow> sq_invoice \<Rightarrow>
   invoice list \<times> invoice list \<times> nat" where
  "sync_step e cid st sq_inv =
     (case st of (rows, added, synced_count) \<Rightarrow>
        (case find (by_invoice_id (sq_id sq_inv)) rows of
           None \<Rightarrow> (rows, added @ [new_inv e cid sq_inv], synced_count + 1)
         | Some existing \<Rightarrow>
             (map_first (by_invoice_id (sq_id sq_inv)) (update_existing sq_inv) rows,
              added, synced_count)))"

text \<open>The platform's answer to \<open>get_customer_invoices\<close>; \<open>res.get("invoices", [])\<close>.\<close>

record invoices_result =
  ir_success :: bool
  ir_invoices :: "sq_invoice list"

definition sync_customer_invoices ::
  "env \<Rightarrow> pydict \<Rightarrow> invoices_result \<Rightarrow> int \<Rightarrow> db \<Rightarrow> (http_error + pydict) \<times> db" where
  "sync_customer_invoices e current_user res customer_id d =
     (if \<not> is_admin current_user then (Inl (HTTPException 403), d)
      else (case get_customer customer_id d of
              None \<Rightarrow> (Inl (HTTPException 404), d)
            | Some customer \<Rightarrow>
                if \<not> truthy_str (square_customer_id customer)
                  then (Inl (HTTPException 404), d)
                else if \<not> ir_success res then (Inl (HTTPException 400), d)
                else (case foldl (sync_step e (c_id customer)) (invoices d, [], 0)
                             (ir_invoices res) of
                        (rows, added, synced_count) \<Rightarrow>
                          (Inr [(''success'', JBool True),
                                (''synced'', JNum (int synced_count))],
                           d\<lparr>invoices := rows @ added\<rparr>))))"

text \<open>
  The first payment request's computed amount, when the invoice has one: the field the
  amount is said to come from.
\<close>

definition first_computed_amount :: "sq_invoice \<Rightarrow> int option" where
  "first_computed_amount sq_inv =
     (case payment_requests sq_inv of
        None \<Rightarrow> None
      | Some [] \<Rightarrow> None
      | Some (r # rs) \<Rightarrow>
          (case computed_amount_money r of None \<Rightarrow> None | Some m \<Rightarrow> m_amount m))"

definition next_payment_amount :: "sq_invoice \<Rightarrow> int option" where
  "next_payment_amount sq_inv =
     (case next_payment_amount_money sq_inv of None \<Rightarrow> None | Some m \<Rightarrow> m_amount m)"

text \<open>Subscription state as the data model words it.\<close>

definition status_invariant :: "customer \<Rightarrow> bool" where
  "status_invariant c = (subscription_active c = (subscription_status c = ''ACTIVE''))"

section \<open>Sample data\<close>

text \<open>
  The customer that \<open>scripts/test_webhook.py\<close> creates, the payloads it posts, and a store
  holding that customer only.
\<close>

definition webhook_test_customer :: customer where
  "webhook_test_customer =
     \<lparr>c_id = 7, square_customer_id = Some ''sq_test_123'',
      square_subscription_id = Some ''sub_test_456'', subscription_active = True,
      subscription_status = ''ACTIVE'', failed_payment_attempts = Some 0,
      plan_id = None, plan_variation_id = None\<rparr>"

definition test_db :: db where
  "test_db = \<lparr>customers = [webhook_test_customer], subscription_plans = [], payments = [],
              payment_methods = [], subscription_logs = [], invoices = []\<rparr>"

definition test_payload :: "string \<Rightarrow> string \<Rightarrow> json" where
  "test_payload ty ev =
     JObj [(''type'', JStr ty), (''event_id'', JStr ev),
           (''data'', JObj [(''object'', JObj [(''invoice'',
              JObj [(''primary_recipient'', JObj [(''customer_id'', JStr ''sq_test_123'')])])])])]"

definition test_db3 :: db where
  "test_db3 = snd (square_webhook 739001 (Returns (test_payload ''invoice.payment_failed'' ''test_event_1''))
               (snd (square_webhook 739000 (Returns (test_payload ''invoice.payment_failed'' ''test_event_1''))
                 (snd (square_webhook 739000 (Returns (test_payload ''invoice.payment_failed'' ''test_event_1'')) test_db)))))"

definition test_db4 :: db where
  "test_db4 = snd (square_webhook 739002 (Returns (test_payload ''invoice.payment_made'' ''test_event_success'')) test_db3)"

text \<open>A successful answer to \<open>create_card_on_file\<close> and a store with two saved cards.\<close>

definition card_answer :: pydict where
  "card_answer = [(''success'', JBool True), (''card_id'', JStr ''ccof:1''),
                  (''last_4'', JStr ''1111''), (''brand'', JStr ''VISA''),
                  (''exp_month'', JNum 12), (''exp_year'', JNum 2030)]"

definition cards_db :: db where
  "cards_db = test_db\<lparr>payment_methods :=
     [\<lparr>pm_customer_id = 7, square_card_id = JStr ''ccof:0'', last_4_digits = JStr ''4242'',
       card_brand = JStr ''VISA'', exp_month = JNum 1, exp_year = JNum 2029, is_default = True\<rparr>,
      \<lparr>pm_customer_id = 8, square_card_id = JStr ''ccof:9'', last_4_digits = JStr ''0005'',
       card_brand = JStr ''AMEX'', exp_month = JNum 6, exp_year = JNum 2031, is_default = True\<rparr>]\<rparr>"

text \<open>
  A window that starts on 1 October 2026, two sign-ups on its first day and one on its
  third.
\<close>

definition october_day :: "nat \<Rightarrow> string" where
  "october_day i = ''2026-10-'' @ (if i + 1 < 10 then CHR ''0'' # str_nat (i + 1) else str_nat (i + 1))"

definition october_growth :: "string \<rightharpoonup> int" where
  "october_growth = map_of [(''2026-10-01'', 2), (''2026-10-03'', 1)]"

definition october_revenue :: "string \<rightharpoonup> rat" where
  "october_revenue = map_of [(''2026-10-03'', 149)]"

text \<open>
  A local row is settled with a remote invoice when it is the row the query finds for
  the invoice's identifier and updating it from the invoice changes nothing.
\<close>

definition settled :: "sq_invoice \<Rightarrow> invoice list \<Rightarrow> bool" where
  "settled x rows =
     (case find (by_invoice_id (sq_id x)) rows of
        None \<Rightarrow> False
      | Some r \<Rightarrow> update_existing x r = r)"

text \<open>
  Remote invoices with one payment request, a clock with parsers that know their creation
  timestamp, an admin token, and two answers of the platform: two invoices, and one
  invoice listed twice.
\<close>

definition remote_invoice :: "string \<Rightarrow> int option \<Rightarrow> int option \<Rightarrow> string \<Rightarrow> sq_invoice" where
  "remote_invoice i computed nxt st =
     \<lparr>sq_id = Some i,
      payment_requests =
        Some [\<lparr>computed_amount_money = Some \<lparr>m_amount = computed, m_currency = Some ''USD''\<rparr>\<rparr>],
      next_payment_amount_money =
        (case nxt of None \<Rightarrow> None | Some m \<Rightarrow> Some \<lparr>m_amount = Some m, m_currency = Some ''USD''\<rparr>),
      sq_subscription_id = Some ''sub_test_456'',
      sq_status = Some st,
      sq_public_url = Some ''https://squareup.com/pay-invoice/x'',
      scheduled_at = None,
      created_at = Some ''2026-10-03T09:00:00Z''\<rparr>"

definition sample_env :: "date \<Rightarrow> env" where
  "sample_env today =
     \<lparr>now_date = today, now_iso = ''2026-11-03T12:00:00'',
      fromisoformat = (\<lambda>s. if s = ''2026-10-03T09:00:00+00:00'' then Some 739892 else None),
      strptime_ymd = (\<lambda>s. None)\<rparr>"

definition admin_user :: pydict where
  "admin_user = [(''sub'', JStr ''admin@adamspropertycare.com''), (''role'', JStr ''admin'')]"

definition two_invoices :: invoices_result where
  "two_invoices = \<lparr>ir_success = True, ir_invoices =
     [remote_invoice ''inv:1'' (Some 2999) None ''UNPAID'',
      remote_invoice ''inv:2'' (Some 0) (Some 1500) ''SCHEDULED'']\<rparr>"

definition same_invoice_twice :: invoices_result where
  "same_invoice_twice = \<lparr>ir_success = True, ir_invoices =
     [remote_invoice ''inv:1'' (Some 2999) None ''UNPAID'',
      remote_invoice ''inv:1'' (Some 2999) None ''PAID'']\<rparr>"

definition synced_db :: db where
  "synced_db = snd (sync_customer_invoices (sample_env 739923) admin_user two_invoices 7 test_db)"

definition twice_db :: db where
  "twice_db = snd (sync_customer_invoices (sample_env 739923) admin_user same_invoice_twice 7 test_db)"

text \<open>
  Platform answers to a pause and to a plan change, and a store that also holds the three
  seeded plans.
\<close>

definition paused_answer :: pydict where
  "paused_answer = [(''success'', JBool True),
     (''subscription'', JObj [(''id'', JStr ''sub_test_456''), (''status'', JStr ''PAUSED'')])]"

definition plan_changed_answer :: pydict where
  "plan_changed_answer = [(''success'', JBool True),
     (''subscription'', JObj [(''id'', JStr ''sub_test_456''),
                              (''plan_variation_id'', JStr ''standard_plan_id'')])]"

definition plans_db :: db where
  "plans_db = test_db\<lparr>subscription_plans :=
     [\<lparr>p_id = 1, plan_name = ''Basic Care'', plan_cost = 149,
       p_plan_variation_id = ''basic_plan_id''\<rparr>,
      \<lparr>p_id = 2, plan_name = ''Standard Care'', plan_cost = 299,
       p_plan_variation_id = ''standard_plan_id''\<rparr>,
      \<lparr>p_id = 3, plan_name = ''Premium Care'', plan_cost = 499,
       p_plan_variation_id = ''premium_plan_id''\<rparr>]\<rparr>"

text \<open>
  A store that already holds the row of invoice \<open>inv:2\<close>, and an answer of the platform
  that lists this invoice twice, the second time with a computed amount of 700.
\<close>

definition relisted_invoice :: invoices_result where
  "relisted_invoice = \<lparr>ir_success = True, ir_invoices =
     [remote_invoice ''inv:2'' (Some 0) (Some 1500) ''SCHEDULED'',
      remote_invoice ''inv:2'' (Some 700) None ''PAID'']\<rparr>"

definition stored_invoice_db :: db where
  "stored_invoice_db = test_db\<lparr>invoices :=
     [new_inv (sample_env 739923) 7 (remote_invoice ''inv:2'' (Some 0) (Some 1500) ''SCHEDULED'')]\<rparr>"

section \<open>Properties\<close>

subsection \<open>Rows found and rewritten\<close>

lemma find_map_first:
  "P y \<Longrightarrow> find P (map_first P (\<lambda>_. y) xs) = (case find P xs of None \<Rightarrow> None | Some _ \<Rightarrow> Some y)"
  by (induction xs) auto

lemma map_first_same: "find P xs = Some c \<Longrightarrow> map_first P (\<lambda>_. c) xs = xs"
  by (induction xs) (auto split: if_splits)

lemma find_by_square_id: "find (by_square_id s) cs = Some c \<Longrightarrow> square_customer_id c = Some s"
  by (auto simp: find_Some_iff by_square_id_def)

subsection \<open>Webhook reconciliation\<close>

lemma failed_step:
  assumes "notifies ''invoice.payment_failed'' s data" "s \<noteq> []"
    and "find (by_square_id s) (customers d) = Some c"
    and "failed_payment_attempts c = Some n"
  shows "snd (square_webhook today (Returns data) d) =
     (if n + 1 \<ge> 3 \<and> subscription_status c \<noteq> ''SUSPENDED''
      then d\<lparr>customers := map_first (by_square_id s)
                 (\<lambda>_. c\<lparr>failed_payment_attempts := Some (n + 1),
                         subscription_status := ''SUSPENDED'', subscription_active := False\<rparr>)
                 (customers d),
             subscription_logs := subscription_logs d @ [suspend_log today c]\<rparr>
      else d\<lparr>customers := map_first (by_square_id s)
                 (\<lambda>_. c\<lparr>failed_payment_attempts := Some (n + 1)\<rparr>) (customers d)\<rparr>)"
  using assms
  by (simp add: square_webhook_def handle_payment_failed_def notifies_def Let_def)

lemma made_step:
  assumes "notifies ''invoice.payment_made'' s data" "s \<noteq> []"
    and "find (by_square_id s) (customers d) = Some c"
    and "failed_payment_attempts c = Some n"
  shows "snd (square_webhook today (Returns data) d) =
     (let c1 = (if n > 0 then c\<lparr>failed_payment_attempts := Some 0\<rparr> else c) in
      if subscription_status c = ''SUSPENDED''
      then d\<lparr>customers := map_first (by_square_id s)
                 (\<lambda>_. c1\<lparr>subscription_status := ''ACTIVE'', subscription_active := True\<rparr>)
                 (customers d),
             subscription_logs := subscription_logs d @ [reactivate_log today c]\<rparr>
      else d\<lparr>customers := map_first (by_square_id s) (\<lambda>_. c1) (customers d)\<rparr>)"
  using assms
  by (simp add: square_webhook_def handle_payment_success_def notifies_def Let_def)

lemma notifies_test_payload: "notifies ty ''sq_test_123'' (test_payload ty ev)"
  by (simp add: notifies_def test_payload_def payload_customer_id_def and_get_def)

lemma find_test_db: "find (by_square_id ''sq_test_123'') (customers test_db) = Some webhook_test_customer"
  by (simp add: test_db_def by_square_id_def webhook_test_customer_def)

text \<open>
  C9. A payment-made notification for a customer whose failure counter is \<open>0\<close> and whose
  status is ACTIVE leaves the whole store as it was: no customer column changes and no
  SubscriptionLog row is added.
\<close>

theorem success_webhook_noop:
  assumes "notifies ''invoice.payment_made'' s made"
    and "find (by_square_id s) (customers d) = Some c"
    and "failed_payment_attempts c = Some 0"
    and "subscription_status c = ''ACTIVE''"
  shows "snd (square_webhook today (Returns made) d) = d"
  using assms
  by (simp add: square_webhook_def handle_payment_success_def notifies_def map_first_same)

theorem success_webhook_noop_witness:
  "snd (square_webhook 739000 (Returns (test_payload ''invoice.payment_made'' ''test_event_success'')) test_db) = test_db"
  using success_webhook_noop [OF notifies_test_payload find_test_db]
  by (simp add: webhook_test_customer_def)

text \<open>
  C2. Starting from a customer found by the platform customer id, with counter \<open>0\<close> and
  status ACTIVE, three payment-failed notifications leave counter \<open>3\<close>, status SUSPENDED,
  \<open>subscription_active\<close> false and exactly one new log row, a SUSPEND dated the day of the
  third notification; one payment-made notification then leaves counter \<open>0\<close>, status
  ACTIVE, \<open>subscription_active\<close> true and one more log row, a REACTIVATE.
\<close>

theorem three_failures_then_success:
  assumes f1: "notifies ''invoice.payment_failed'' s failed1"
    and f2: "notifies ''invoice.payment_failed'' s failed2"
    and f3: "notifies ''invoice.payment_failed'' s failed3"
    and m: "notifies ''invoice.payment_made'' s made"
    and s: "s \<noteq> []"
    and c: "find (by_square_id s) (customers d0) = Some c"
    and a0: "failed_payment_attempts c = Some 0"
    and st: "subscription_status c = ''ACTIVE''"
    and d3: "d3 = snd (square_webhook t3 (Returns failed3)
                   (snd (square_webhook t2 (Returns failed2)
                     (snd (square_webhook t1 (Returns failed1) d0)))))"
    and d4: "d4 = snd (square_webhook t4 (Returns made) d3)"
  shows "find (by_square_id s) (customers d3) =
           Some (c\<lparr>failed_payment_attempts := Some 3, subscription_status := ''SUSPENDED'',
                   subscription_active := False\<rparr>)
       \<and> subscription_logs d3 = subscription_logs d0 @
           [\<lparr>log_customer_id = c_id c, log_subscription_id = square_subscription_id c,
             action = ''SUSPEND'', effective_date = t3\<rparr>]
       \<and> find (by_square_id s) (customers d4) =
           Some (c\<lparr>failed_payment_attempts := Some 0, subscription_status := ''ACTIVE'',
                   subscription_active := True\<rparr>)
       \<and> subscription_logs d4 = subscription_logs d3 @
           [\<lparr>log_customer_id = c_id c, log_subscription_id = square_subscription_id c,
             action = ''REACTIVATE'', effective_date = t4\<rparr>]"
proof -
  have sq: "square_customer_id c = Some s"
    using c by (rule find_by_square_id)
  define c1 where "c1 = c\<lparr>failed_payment_attempts := Some 1\<rparr>"
  define c2 where "c2 = c\<lparr>failed_payment_attempts := Some 2\<rparr>"
  define c3 where "c3 = c\<lparr>failed_payment_attempts := Some 3,
                          subscription_status := ''SUSPENDED'', subscription_active := False\<rparr>"
  define d1 where "d1 = snd (square_webhook t1 (Returns failed1) d0)"
  define d2 where "d2 = snd (square_webhook t2 (Returns failed2) d1)"
  have d1: "d1 = d0\<lparr>customers := map_first (by_square_id s) (\<lambda>_. c1) (customers d0)\<rparr>"
    unfolding d1_def c1_def using failed_step [OF f1 s c a0, of t1] st by simp
  have fc1: "find (by_square_id s) (customers d1) = Some c1"
    using c sq by (simp add: d1 find_map_first by_square_id_def c1_def)
  have d2: "d2 = d1\<lparr>customers := map_first (by_square_id s) (\<lambda>_. c2) (customers d1)\<rparr>"
    unfolding d2_def using failed_step [OF f2 s fc1, of 1 t2] st
    by (simp add: c1_def c2_def)
  have fc2: "find (by_square_id s) (customers d2) = Some c2"
    using fc1 sq by (simp add: d2 find_map_first by_square_id_def c2_def)
  have "d3 = snd (square_webhook t3 (Returns failed3) d2)"
    by (simp add: d3 d2_def d1_def)
  then have d3': "d3 = d2\<lparr>customers := map_first (by_square_id s) (\<lambda>_. c3) (customers d2),
                          subscription_logs := subscription_logs d2 @ [suspend_log t3 c2]\<rparr>"
    using failed_step [OF f3 s fc2, of 2 t3] st
    by (simp add: c2_def c3_def)
  have fc3: "find (by_square_id s) (customers d3) = Some c3"
    using fc2 sq by (simp add: d3' find_map_first by_square_id_def c3_def)
  have logs3: "subscription_logs d3 = subscription_logs d0 @ [suspend_log t3 c2]"
    by (simp add: d3' d2 d1)
  define c4 where "c4 = c\<lparr>failed_payment_attempts := Some 0,
                          subscription_status := ''ACTIVE'', subscription_active := True\<rparr>"
  have d4': "d4 = d3\<lparr>customers := map_first (by_square_id s) (\<lambda>_. c4) (customers d3),
                      subscription_logs := subscription_logs d3 @ [reactivate_log t4 c3]\<rparr>"
    unfolding d4 using made_step [OF m s fc3, of 3 t4]
    by (simp add: c3_def c4_def)
  have fc4: "find (by_square_id s) (customers d4) = Some c4"
    using fc3 sq by (simp add: d4' find_map_first by_square_id_def c4_def)
  have logs4: "subscription_logs d4 = subscription_logs d3 @ [reactivate_log t4 c3]"
    by (simp add: d4')
  show ?thesis
    using fc3 logs3 fc4 logs4
    by (simp add: c3_def c4_def c2_def suspend_log_def reactivate_log_def)
qed

theorem three_failures_then_success_witness:
  "customers test_db3 =
      [webhook_test_customer\<lparr>failed_payment_attempts := Some 3,
         subscription_status := ''SUSPENDED'', subscription_active := False\<rparr>]
   \<and> map action (subscription_logs test_db3) = [''SUSPEND'']
   \<and> map effective_date (subscription_logs test_db3) = [739001]
   \<and> find (by_square_id ''sq_test_123'') (customers test_db4) =
        Some (webhook_test_customer\<lparr>failed_payment_attempts := Some 0\<rparr>)
   \<and> map action (subscription_logs test_db4) = [''SUSPEND'', ''REACTIVATE'']"
proof -
  have a: "failed_payment_attempts webhook_test_customer = Some 0"
    and b: "subscription_status webhook_test_customer = ''ACTIVE''"
    and c: "''sq_test_123'' \<noteq> []"
    by (simp_all add: webhook_test_customer_def)
  note th = three_failures_then_success [OF notifies_test_payload notifies_test_payload
      notifies_test_payload notifies_test_payload c find_test_db a b test_db3_def test_db4_def]
  have len: "length (customers test_db3) = 1"
    by (simp add: test_db3_def square_webhook_def handle_payment_failed_def test_payload_def
        payload_customer_id_def and_get_def test_db_def by_square_id_def
        webhook_test_customer_def Let_def)
  show ?thesis using th len
    by (auto simp: webhook_test_customer_def test_db_def length_Suc_conv by_square_id_def
        split: if_splits)
qed

text \<open>
  C4. Every request is answered with HTTP 200, the acknowledgement the platform looks at,
  and the handler never raises. Notification types other than payment-failed and
  payment-made change nothing and are answered \<open>{"status": "success"}\<close>, as is every
  body that decodes to a JSON object, whatever is raised inside the two handlers. A body
  that is not a JSON object raises inside the handler; the exception is caught, the store
  is untouched, and the 200 answer carries \<open>"status": "error"\<close> with the exception's text.
\<close>

theorem square_webhook_acknowledges:
  "status_code (fst (square_webhook today request d)) = 200
   \<and> (is_object request \<longrightarrow>
        body (fst (square_webhook today request d)) = [(''status'', JStr ''success'')])
   \<and> (\<not> is_object request \<longrightarrow>
        res_get (body (fst (square_webhook today request d))) ''status'' = JStr ''error''
        \<and> snd (square_webhook today request d) = d)
   \<and> (\<forall>data. request = Returns data
        \<and> dict_get data ''type'' JNull \<noteq> Inr (JStr ''invoice.payment_failed'')
        \<and> dict_get data ''type'' JNull \<noteq> Inr (JStr ''invoice.payment_made'')
        \<longrightarrow> snd (square_webhook today request d) = d)"
proof (cases request)
  case (Raises msg)
  then show ?thesis by (simp add: square_webhook_def res_get_def)
next
  case (Returns data)
  then show ?thesis
    by (cases data) (auto simp: square_webhook_def res_get_def split: sum.splits)
qed

theorem square_webhook_acknowledges_witness:
  "is_object (Returns (test_payload ''invoice.updated'' ''ev_9''))
   \<and> fst (square_webhook 739000 (Returns (test_payload ''invoice.updated'' ''ev_9'')) test_db)
       = \<lparr>status_code = 200, body = [(''status'', JStr ''success'')]\<rparr>
   \<and> snd (square_webhook 739000 (Returns (test_payload ''invoice.updated'' ''ev_9'')) test_db)
       = test_db
   \<and> status_code (fst (square_webhook 739000 (Returns (JArr [])) test_db)) = 200
   \<and> res_get (body (fst (square_webhook 739000 (Returns (JArr [])) test_db))) ''status''
       = JStr ''error''
   \<and> snd (square_webhook 739000 (Returns (JArr [])) test_db) = test_db
   \<and> status_code (fst (square_webhook 739000
         (Raises ''Expecting value: line 1 column 1 (char 0)'') test_db)) = 200
   \<and> snd (square_webhook 739000
         (Raises ''Expecting value: line 1 column 1 (char 0)'') test_db) = test_db"
  using square_webhook_acknowledges
      [of 739000 "Returns (test_payload ''invoice.updated'' ''ev_9'')" test_db]
    square_webhook_acknowledges [of 739000 "Returns (JArr [])" test_db]
    square_webhook_acknowledges
      [of 739000 "Raises ''Expecting value: line 1 column 1 (char 0)''" test_db]
  by (simp add: test_payload_def)

text \<open>The answer to a body that is a JSON list, as the \<open>except\<close> branch builds it.\<close>

lemma square_webhook_list_body:
  "fst (square_webhook today (Returns (JArr xs)) d) =
     \<lparr>status_code = 200,
      body = [(''status'', JStr ''error''),
              (''message'', JStr ([CHR 0x27] @ ''list'' @ [CHR 0x27]
                 @ '' object has no attribute '' @ [CHR 0x27] @ ''get'' @ [CHR 0x27]))]\<rparr>"
  by (simp add: square_webhook_def no_attribute_get_def)

subsection \<open>Saved cards\<close>

lemma defaults_of_saved:
  "defaults_of cid (clear_default k pms @ [new_method k card_res]) =
     (if cid = k then [new_method k card_res] else defaults_of cid pms)"
  by (induction pms) (auto simp: defaults_of_def clear_default_def new_method_def)

lemma payment_methods_set_customer [simp]:
  "payment_methods (set_customer i c d) = payment_methods d"
  by (simp add: set_customer_def)

lemma get_db_user_id: "get_db_user uid d = Inr user \<Longrightarrow> c_id user = uid"
  by (auto simp: get_db_user_def by_id_def split: option.splits dest: find_Some_iff [THEN iffD1])

lemma validate_card_methods:
  "payment_methods (snd (validate_card cust_res card_res rc d)) = payment_methods d
   \<or> (\<exists>k. payment_methods (snd (validate_card cust_res card_res rc d)) =
            clear_default k (payment_methods d) @ [new_method k card_res])"
  by (auto simp: validate_card_def Let_def split: option.splits)

lemma save_card_methods:
  "payment_methods (snd (save_card cust_res card_res uid d)) = payment_methods d
   \<or> payment_methods (snd (save_card cust_res card_res uid d)) =
            clear_default uid (payment_methods d) @ [new_method uid card_res]"
  by (auto simp: save_card_def Let_def split: sum.splits dest: get_db_user_id)

lemma cards_db_inv: "length (defaults_of cid (payment_methods cards_db)) \<le> 1"
  by (simp add: cards_db_def defaults_of_def)

text \<open>
  C7. If no customer has more than one default PaymentMethod row, none has after
  \<open>validate_card\<close> or \<open>save_card\<close>, whatever they answer. When either saves a card, the
  customer's rows are the old ones with \<open>is_default\<close> cleared followed by the new row, and
  the new row is that customer's only default.
\<close>

theorem one_default_payment_method:
  assumes inv: "\<forall>cid. length (defaults_of cid (payment_methods d)) \<le> 1"
  shows "(\<forall>cid. length (defaults_of cid
             (payment_methods (snd (validate_card cust_res card_res request_customer_id d)))) \<le> 1)
       \<and> (\<forall>cid. length (defaults_of cid
             (payment_methods (snd (save_card cust_res card_res uid d)))) \<le> 1)
       \<and> (\<forall>r c. fst (validate_card cust_res card_res request_customer_id d) = Inr r
             \<and> request_customer_id = Some (c_id c) \<and> c_id c \<noteq> 0
             \<and> get_customer (c_id c) d = Some c \<longrightarrow>
             payment_methods (snd (validate_card cust_res card_res request_customer_id d)) =
               clear_default (c_id c) (payment_methods d) @ [new_method (c_id c) card_res]
             \<and> defaults_of (c_id c)
                 (payment_methods (snd (validate_card cust_res card_res request_customer_id d)))
               = [new_method (c_id c) card_res])
       \<and> (\<forall>r. fst (save_card cust_res card_res uid d) = Inr r \<longrightarrow>
             payment_methods (snd (save_card cust_res card_res uid d)) =
               clear_default uid (payment_methods d) @ [new_method uid card_res]
             \<and> defaults_of uid (payment_methods (snd (save_card cust_res card_res uid d)))
               = [new_method uid card_res])"
proof (intro conjI allI impI)
  fix cid
  show "length (defaults_of cid
          (payment_methods (snd (validate_card cust_res card_res request_customer_id d)))) \<le> 1"
    using validate_card_methods [of cust_res card_res request_customer_id d] inv
    by (auto simp: defaults_of_saved)
  show "length (defaults_of cid (payment_methods (snd (save_card cust_res card_res uid d)))) \<le> 1"
    using save_card_methods [of cust_res card_res uid d] inv
    by (auto simp: defaults_of_saved)
next
  fix r c
  assume a: "fst (validate_card cust_res card_res request_customer_id d) = Inr r
     \<and> request_customer_id = Some (c_id c) \<and> c_id c \<noteq> 0 \<and> get_customer (c_id c) d = Some c"
  then show m: "payment_methods (snd (validate_card cust_res card_res request_customer_id d)) =
          clear_default (c_id c) (payment_methods d) @ [new_method (c_id c) card_res]"
    by (auto simp: validate_card_def Let_def split: if_splits)
  show "defaults_of (c_id c)
          (payment_methods (snd (validate_card cust_res card_res request_customer_id d)))
        = [new_method (c_id c) card_res]"
    by (simp add: m defaults_of_saved)
next
  fix r
  assume a: "fst (save_card cust_res card_res uid d) = Inr r"
  then show m: "payment_methods (snd (save_card cust_res card_res uid d)) =
          clear_default uid (payment_methods d) @ [new_method uid card_res]"
    by (auto simp: save_card_def Let_def split: sum.splits if_splits dest: get_db_user_id)
  show "defaults_of uid (payment_methods (snd (save_card cust_res card_res uid d)))
        = [new_method uid card_res]"
    by (simp add: m defaults_of_saved)
qed

theorem one_default_payment_method_witness:
  "length (defaults_of 7 (payment_methods cards_db)) \<le> 1
   \<and> fst (save_card [] card_answer 7 cards_db) =
        Inr [(''success'', JBool True), (''message'', JStr ''Payment method saved successfully''),
             (''card_id'', JStr ''ccof:1'')]
   \<and> fst (validate_card [] card_answer (Some 7) cards_db) \<noteq> Inl (HTTPException 400)
   \<and> map is_default (payment_methods (snd (save_card [] card_answer 7 cards_db)))
        = [False, True, True]
   \<and> map is_default (payment_methods (snd (validate_card [] card_answer (Some 7) cards_db)))
        = [False, True, True]
   \<and> defaults_of 7 (payment_methods (snd (save_card [] card_answer 7 cards_db)))
        = [new_method 7 card_answer]
   \<and> defaults_of 7 (payment_methods (snd (validate_card [] card_answer (Some 7) cards_db)))
        = [new_method 7 card_answer]"
proof -
  have inv: "\<forall>cid. length (defaults_of cid (payment_methods cards_db)) \<le> 1"
    using cards_db_inv by blast
  have s: "fst (save_card [] card_answer 7 cards_db) =
        Inr [(''success'', JBool True), (''message'', JStr ''Payment method saved successfully''),
             (''card_id'', JStr ''ccof:1'')]"
    by (simp add: save_card_def get_db_user_def cards_db_def test_db_def by_id_def
        webhook_test_customer_def card_answer_def res_get_def)
  have g: "get_customer (c_id webhook_test_customer) cards_db = Some webhook_test_customer"
    and i: "c_id webhook_test_customer = 7"
    by (simp_all add: get_customer_def cards_db_def test_db_def by_id_def webhook_test_customer_def)
  have v: "fst (validate_card [] card_answer (Some 7) cards_db) =
        Inr [(''success'', JBool True), (''card_id'', JStr ''ccof:1''),
             (''customer_id'', JStr ''sq_test_123''), (''card_details'', JObj card_answer)]"
    using g i
    by (simp add: validate_card_def card_answer_def res_get_def webhook_test_customer_def)
  note th = one_default_payment_method [OF inv, of "[]" card_answer "Some 7" 7]
  have m: "map is_default (clear_default 7 (payment_methods cards_db) @ [new_method 7 card_answer])
             = [False, True, True]"
    by (simp add: clear_default_def cards_db_def new_method_def)
  from th s v g i m cards_db_inv [of 7] show ?thesis
    by auto
qed

subsection \<open>Growth history\<close>

lemma growth_loop_acc:
  "growth_loop day gm rm is tot acc = acc @ growth_loop day gm rm is tot []"
proof (induction "is" arbitrary: tot acc)
  case Nil
  then show ?case by simp
next
  case (Cons i rest)
  show ?case
    using Cons.IH [of "tot + daily_new day gm i" "acc @ _"]
      Cons.IH [of "tot + daily_new day gm i" "[_]"]
    by (simp add: Let_def)
qed

lemma growth_loop_length: "length (growth_loop day gm rm is tot acc) = length acc + length is"
  by (induction "is" arbitrary: tot acc) (simp_all add: Let_def)

lemma growth_loop_nth:
  "k < length is \<Longrightarrow>
   growth_loop day gm rm is tot [] ! k =
     \<lparr>g_date = day (is ! k),
      g_customers = tot + sum_list (map (daily_new day gm) (take (Suc k) is)),
      g_revenue = daily_rev day rm (is ! k)\<rparr>"
proof (induction "is" arbitrary: tot k)
  case Nil
  then show ?case by simp
next
  case (Cons i rest)
  have step: "growth_loop day gm rm (i # rest) tot [] =
      \<lparr>g_date = day i, g_customers = tot + daily_new day gm i,
        g_revenue = daily_rev day rm i\<rparr>
      # growth_loop day gm rm rest (tot + daily_new day gm i) []"
    using growth_loop_acc [of day gm rm rest "tot + daily_new day gm i" "[_]"]
    by (simp add: Let_def)
  show ?case
  proof (cases k)
    case 0
    then show ?thesis by (simp add: step del: growth_loop.simps)
  next
    case (Suc j)
    with Cons.prems have "j < length rest" by simp
    from Cons.IH [OF this, of "tot + daily_new day gm i"] Suc
    show ?thesis by (simp add: step add.assoc del: growth_loop.simps)
  qed
qed

lemma sum_list_upt: "sum_list (map f [0..<Suc k]) = (\<Sum>i\<le>k. (f i :: int))"
  by (induction k) (simp_all add: atMost_Suc ac_simps)

lemma growth_history_nth:
  assumes "k < 31"
  shows "growth_history day gm rm n ! k =
     \<lparr>g_date = day k, g_customers = n + (\<Sum>i\<le>k. daily_new day gm i),
      g_revenue = daily_rev day rm k\<rparr>"
proof -
  have "take (Suc k) [0..<31] = [0..<Suc k]"
    using assms by (simp del: upt_Suc)
  then show ?thesis
    using assms growth_loop_nth [of k "[0..<31]" day gm rm n] sum_list_upt [of "daily_new day gm" k]
    by (simp add: growth_history_def del: upt_Suc)
qed

lemma october_days:
  "october_day 0 = ''2026-10-01''" "october_day (Suc 0) = ''2026-10-02''"
  "october_day (Suc (Suc 0)) = ''2026-10-03''"
  by code_simp+

lemma october_nonneg: "0 \<le> daily_new october_day october_growth i"
  by (simp add: daily_new_def october_growth_def)

text \<open>
  C8. With \<open>n\<close> customers created before the window and \<open>daily_new i\<close> new customers on
  its \<open>i\<close>-th day, the growth history has 31 entries, the \<open>k\<close>-th holding
  \<open>n + daily_new 0 + ... + daily_new k\<close>; the first is \<open>n + daily_new 0\<close>, and when no
  daily count is negative the series never decreases.
\<close>

theorem growth_history_cumulative:
  "length (growth_history day growth_map revenue_map n) = 31
   \<and> (\<forall>k<31. g_customers (growth_history day growth_map revenue_map n ! k)
               = n + (\<Sum>i\<le>k. daily_new day growth_map i))
   \<and> g_customers (hd (growth_history day growth_map revenue_map n))
       = n + daily_new day growth_map 0
   \<and> ((\<forall>i<31. 0 \<le> daily_new day growth_map i) \<longrightarrow>
        sorted (map g_customers (growth_history day growth_map revenue_map n)))"
proof (intro conjI allI impI)
  let ?gh = "growth_history day growth_map revenue_map n"
  show len: "length ?gh = 31"
    by (simp add: growth_history_def growth_loop_length del: upt_Suc)
  show nth: "g_customers (?gh ! k) = n + (\<Sum>i\<le>k. daily_new day growth_map i)" if "k < 31" for k
    using that by (simp add: growth_history_nth)
  have "?gh \<noteq> []" using len by auto
  then have "hd ?gh = ?gh ! 0" by (simp add: hd_conv_nth)
  then show "g_customers (hd ?gh) = n + daily_new day growth_map 0"
    by (simp add: growth_history_nth)
  show "sorted (map g_customers ?gh)" if nonneg: "\<forall>i<31. 0 \<le> daily_new day growth_map i"
  proof -
    have "g_customers (?gh ! i) \<le> g_customers (?gh ! j)" if "i \<le> j" "j < 31" for i j
    proof -
      have "(\<Sum>a\<le>i. daily_new day growth_map a) \<le> (\<Sum>a\<le>j. daily_new day growth_map a)"
        using that nonneg by (intro sum_mono2) auto
      then show ?thesis using that by (simp add: growth_history_nth)
    qed
    then show ?thesis
      by (simp add: sorted_iff_nth_mono len)
  qed
qed

theorem growth_history_cumulative_witness:
  "length (growth_history october_day october_growth october_revenue 5) = 31
   \<and> g_customers (hd (growth_history october_day october_growth october_revenue 5)) = 5 + 2
   \<and> g_customers (growth_history october_day october_growth october_revenue 5 ! 2) = 5 + 2 + 0 + 1
   \<and> sorted (map g_customers (growth_history october_day october_growth october_revenue 5))"
proof -
  have v: "daily_new october_day october_growth 0 = 2"
    "daily_new october_day october_growth (Suc 0) = 0"
    "daily_new october_day october_growth (Suc (Suc 0)) = 1"
    by (simp_all add: daily_new_def october_days october_growth_def)
  have s: "(\<Sum>i\<le>2. daily_new october_day october_growth i) = 3"
    using v by (simp add: eval_nat_numeral atMost_Suc)
  show ?thesis
    using growth_history_cumulative [of october_day october_growth october_revenue 5]
      october_nonneg v s
    by simp
qed

subsection \<open>Invoice amounts\<close>

text \<open>
  C6 as the code has it. The local amount is the first payment request's computed amount
  divided by 100 when that amount is present and not zero; otherwise it is the
  next-payment amount divided by 100, and zero when there is none. A computed amount of
  2999 gives 29.99.
\<close>

theorem invoice_amount_cases:
  "invoice_amount sq_inv =
     (case first_computed_amount sq_inv of
        Some a \<Rightarrow>
          if a \<noteq> 0 then of_int a / 100
          else (case next_payment_amount_money sq_inv of
                  None \<Rightarrow> 0
                | Some nm \<Rightarrow> (case m_amount nm of None \<Rightarrow> 0 | Some m \<Rightarrow> of_int m / 100))
      | None \<Rightarrow>
          (case next_payment_amount_money sq_inv of
             None \<Rightarrow> 0
           | Some nm \<Rightarrow> (case m_amount nm of None \<Rightarrow> 0 | Some m \<Rightarrow> of_int m / 100)))
   \<and> (first_computed_amount sq_inv = Some 2999 \<longrightarrow> invoice_amount sq_inv = 29.99)"
  by (auto simp: invoice_amount_def first_computed_amount_def money_truthy_def empty_money_def
      Let_def split: option.splits list.splits)

theorem invoice_amount_cases_witness:
  "first_computed_amount (remote_invoice ''inv:1'' (Some 2999) (Some 500) ''PAID'') = Some 2999
   \<and> invoice_amount (remote_invoice ''inv:1'' (Some 2999) (Some 500) ''PAID'') = 29.99"
  using invoice_amount_cases [of "remote_invoice ''inv:1'' (Some 2999) (Some 500) ''PAID''"]
  by (simp add: first_computed_amount_def remote_invoice_def)

text \<open>
  A computed amount that is populated with \<open>0\<close>, next to a next-payment amount of 500: the
  local amount is 5.00 and not 0.00.
\<close>

theorem populated_zero_amount_counterexample:
  "first_computed_amount (remote_invoice ''inv:2'' (Some 0) (Some 500) ''UNPAID'') = Some 0
   \<and> invoice_amount (remote_invoice ''inv:2'' (Some 0) (Some 500) ''UNPAID'') = 5
   \<and> invoice_amount (remote_invoice ''inv:2'' (Some 0) (Some 500) ''UNPAID'') \<noteq> of_int 0 / 100"
  by (simp add: first_computed_amount_def invoice_amount_def remote_invoice_def money_truthy_def)

lemma find_map_first_keep:
  "(\<And>x. P (f x) = P x) \<Longrightarrow> find P (map_first P f xs) = map_option f (find P xs)"
  by (induction xs) auto

text \<open>What one pass of the loop body stores for such an invoice.\<close>

lemma sync_step_zero_computed_amount:
  assumes "first_computed_amount sq_inv = Some 0"
    and "next_payment_amount sq_inv = Some m"
    and "sync_step e cid (rows, added, n) sq_inv = (rows', added', n')"
  shows "invoice_amount sq_inv = of_int m / 100
       \<and> (case find (by_invoice_id (sq_id sq_inv)) rows of
             None \<Rightarrow> added' = added @ [new_inv e cid sq_inv]
                     \<and> inv_amount (new_inv e cid sq_inv) = of_int m / 100
           | Some existing \<Rightarrow>
               map_option inv_amount (find (by_invoice_id (sq_id sq_inv)) rows')
                 = Some (of_int m / 100))"
proof -
  have a: "invoice_amount sq_inv = of_int m / 100"
    using assms(1,2)
    by (auto simp: invoice_amount_def first_computed_amount_def next_payment_amount_def
        money_truthy_def empty_money_def Let_def split: option.splits list.splits)
  have k: "by_invoice_id i (update_existing sq_inv r) = by_invoice_id i r" for i r
    by (simp add: by_invoice_id_def update_existing_def)
  have f: "find (by_invoice_id i) (map_first (by_invoice_id i) (update_existing sq_inv) rs)
           = map_option (update_existing sq_inv) (find (by_invoice_id i) rs)" for i rs
    by (rule find_map_first_keep) (simp add: k)
  show ?thesis
    using assms(3) a
    by (auto simp: sync_step_def new_inv_def f update_existing_def split: option.splits)
qed

subsection \<open>Invoice synchronization\<close>

lemma find_map_first_other:
  "(\<And>x. Q x \<Longrightarrow> \<not> P x \<and> \<not> P (f x)) \<Longrightarrow> find P (map_first Q f xs) = find P xs"
  by (induction xs) auto

lemma map_first_fixed: "find P xs = Some r \<Longrightarrow> f r = r \<Longrightarrow> map_first P f xs = xs"
  by (induction xs) (auto split: if_splits)

lemma find_app:
  "find P (xs @ ys) = (case find P xs of None \<Rightarrow> find P ys | Some r \<Rightarrow> Some r)"
  by (induction xs) auto

lemma map_first_ids:
  "map square_invoice_id (map_first P (update_existing x) rows) = map square_invoice_id rows"
  by (induction rows) (auto simp: update_existing_def)

lemma update_existing_twice: "update_existing x (update_existing x r) = update_existing x r"
  by (simp add: update_existing_def)

lemma by_invoice_id_update [simp]:
  "by_invoice_id i (update_existing x r) = by_invoice_id i r"
  by (simp add: by_invoice_id_def update_existing_def)

lemma find_by_invoice_id_None:
  "find (by_invoice_id i) rows = None \<longleftrightarrow> i \<notin> set (map square_invoice_id rows)"
  by (induction rows) (auto simp: by_invoice_id_def)

lemma find_updated:
  "find (by_invoice_id i) (map_first (by_invoice_id i) (update_existing x) rows)
     = map_option (update_existing x) (find (by_invoice_id i) rows)"
  by (rule find_map_first_keep) simp

lemma find_updated_other:
  "i \<noteq> j \<Longrightarrow>
   find (by_invoice_id i) (map_first (by_invoice_id j) (update_existing x) rows)
     = find (by_invoice_id i) rows"
  by (rule find_map_first_other) (auto simp: by_invoice_id_def update_existing_def)

lemma sync_step_settles:
  assumes "sq_id x \<notin> set (map square_invoice_id added)"
    and "sync_step e cid (rows, added, n) x = (rows1, added1, n1)"
  shows "settled x (rows1 @ added1)"
proof (cases "find (by_invoice_id (sq_id x)) rows")
  case None
  with assms(2) have eq: "rows1 = rows" "added1 = added @ [new_inv e cid x]"
    by (auto simp: sync_step_def)
  have "find (by_invoice_id (sq_id x)) added = None"
    using assms(1) by (simp add: find_by_invoice_id_None)
  with None show ?thesis
    by (simp add: settled_def eq find_app by_invoice_id_def new_inv_def update_existing_def)
next
  case (Some r)
  with assms(2) have eq: "rows1 = map_first (by_invoice_id (sq_id x)) (update_existing x) rows"
      "added1 = added"
    by (auto simp: sync_step_def)
  from Some show ?thesis
    by (simp add: settled_def eq find_app find_updated update_existing_twice)
qed

lemma sync_step_keeps_settled:
  assumes "settled x (rows @ added)" and "sq_id y \<noteq> sq_id x"
    and "sync_step e cid (rows, added, n) y = (rows1, added1, n1)"
  shows "settled x (rows1 @ added1)"
proof (cases "find (by_invoice_id (sq_id y)) rows")
  case None
  with assms(3) have eq: "rows1 = rows" "added1 = added @ [new_inv e cid y]"
    by (auto simp: sync_step_def)
  from assms(1,2) show ?thesis
    by (auto simp: settled_def eq find_app by_invoice_id_def new_inv_def split: option.splits)
next
  case (Some r)
  with assms(3) have eq: "rows1 = map_first (by_invoice_id (sq_id y)) (update_existing y) rows"
      "added1 = added"
    by (auto simp: sync_step_def)
  from assms(1,2) show ?thesis
    by (simp add: settled_def eq find_app find_updated_other [OF not_sym])
qed

lemma sync_fold_keeps_settled:
  "settled x (rows @ added) \<Longrightarrow> sq_id x \<notin> set (map sq_id ys) \<Longrightarrow>
   foldl (sync_step e cid) (rows, added, n) ys = (rows', added', n') \<Longrightarrow>
   settled x (rows' @ added')"
proof (induction ys arbitrary: rows added n)
  case Nil
  then show ?case by simp
next
  case (Cons y ys)
  obtain rows1 added1 n1 where st: "sync_step e cid (rows, added, n) y = (rows1, added1, n1)"
    by (metis prod_cases3)
  have "settled x (rows1 @ added1)"
    using sync_step_keeps_settled [OF Cons.prems(1) _ st] Cons.prems(2) by auto
  then show ?case
    using Cons.IH [of rows1 added1 n1] Cons.prems st by simp
qed

lemma sync_step_added_ids:
  "sync_step e cid (rows, added, n) x = (rows1, added1, n1) \<Longrightarrow>
   set (map square_invoice_id added1) \<subseteq> insert (sq_id x) (set (map square_invoice_id added))"
  by (auto simp: sync_step_def new_inv_def split: option.splits)

lemma sync_fold_settles:
  "distinct (map sq_id xs) \<Longrightarrow>
   set (map sq_id xs) \<inter> set (map square_invoice_id added) = {} \<Longrightarrow>
   foldl (sync_step e cid) (rows, added, n) xs = (rows', added', n') \<Longrightarrow>
   \<forall>x\<in>set xs. settled x (rows' @ added')"
proof (induction xs arbitrary: rows added n)
  case Nil
  then show ?case by simp
next
  case (Cons x xs)
  obtain rows1 added1 n1 where st: "sync_step e cid (rows, added, n) x = (rows1, added1, n1)"
    by (metis prod_cases3)
  have rest: "foldl (sync_step e cid) (rows1, added1, n1) xs = (rows', added', n')"
    using Cons.prems(3) st by simp
  have fresh: "sq_id x \<notin> set (map square_invoice_id added)"
    using Cons.prems(2) by auto
  have "settled x (rows1 @ added1)"
    using sync_step_settles [OF fresh st] .
  then have here: "settled x (rows' @ added')"
    using sync_fold_keeps_settled [OF _ _ rest] Cons.prems(1) by simp
  have "set (map sq_id xs) \<inter> set (map square_invoice_id added1) = {}"
  proof -
    have "set (map square_invoice_id added1)
            \<subseteq> insert (sq_id x) (set (map square_invoice_id added))"
      using sync_step_added_ids [OF st] .
    moreover have "sq_id x \<notin> set (map sq_id xs)"
      using Cons.prems(1) by simp
    moreover have "set (map sq_id xs) \<inter> set (map square_invoice_id added) = {}"
      using Cons.prems(2) by auto
    ultimately show ?thesis by blast
  qed
  then have "\<forall>y\<in>set xs. settled y (rows' @ added')"
    using Cons.IH [OF _ _ rest] Cons.prems(1) by simp
  with here show ?case by simp
qed

lemma sync_fold_noop:
  "\<forall>x\<in>set xs. settled x rows \<Longrightarrow>
   foldl (sync_step e cid) (rows, added, n) xs = (rows, added, n)"
proof (induction xs)
  case Nil
  then show ?case by simp
next
  case (Cons x xs)
  then have "settled x rows" by simp
  then have "sync_step e cid (rows, added, n) x = (rows, added, n)"
    by (auto simp: settled_def sync_step_def map_first_fixed split: option.splits)
  with Cons show ?case by simp
qed

lemma sync_step_distinct:
  assumes "distinct (map square_invoice_id (rows @ added))"
    and "sq_id x \<notin> set (map square_invoice_id added)"
    and "sync_step e cid (rows, added, n) x = (rows1, added1, n1)"
  shows "distinct (map square_invoice_id (rows1 @ added1))"
proof (cases "find (by_invoice_id (sq_id x)) rows")
  case None
  with assms(3) have eq: "rows1 = rows" "added1 = added @ [new_inv e cid x]"
    by (auto simp: sync_step_def)
  from None have "sq_id x \<notin> set (map square_invoice_id rows)"
    by (simp add: find_by_invoice_id_None)
  with assms(1,2) show ?thesis
    by (auto simp: eq new_inv_def)
next
  case (Some r)
  with assms(3) have eq: "rows1 = map_first (by_invoice_id (sq_id x)) (update_existing x) rows"
      "added1 = added"
    by (auto simp: sync_step_def)
  from assms(1) show ?thesis
    by (simp add: eq map_first_ids)
qed

lemma sync_fold_distinct:
  "distinct (map square_invoice_id (rows @ added)) \<Longrightarrow>
   distinct (map sq_id xs) \<Longrightarrow>
   set (map sq_id xs) \<inter> set (map square_invoice_id added) = {} \<Longrightarrow>
   foldl (sync_step e cid) (rows, added, n) xs = (rows', added', n') \<Longrightarrow>
   distinct (map square_invoice_id (rows' @ added'))"
proof (induction xs arbitrary: rows added n)
  case Nil
  then show ?case by simp
next
  case (Cons x xs)
  obtain rows1 added1 n1 where st: "sync_step e cid (rows, added, n) x = (rows1, added1, n1)"
    by (metis prod_cases3)
  have rest: "foldl (sync_step e cid) (rows1, added1, n1) xs = (rows', added', n')"
    using Cons.prems(4) st by simp
  have fresh: "sq_id x \<notin> set (map square_invoice_id added)"
    using Cons.prems(3) by auto
  have d1: "distinct (map square_invoice_id (rows1 @ added1))"
    using sync_step_distinct [OF Cons.prems(1) fresh st] .
  have "set (map sq_id xs) \<inter> set (map square_invoice_id added1) = {}"
  proof -
    have "set (map square_invoice_id added1)
            \<subseteq> insert (sq_id x) (set (map square_invoice_id added))"
      using sync_step_added_ids [OF st] .
    moreover have "sq_id x \<notin> set (map sq_id xs)"
      using Cons.prems(2) by simp
    moreover have "set (map sq_id xs) \<inter> set (map square_invoice_id added) = {}"
      using Cons.prems(3) by auto
    ultimately show ?thesis by blast
  qed
  then show ?case
    using Cons.IH [OF d1 _ _ rest] Cons.prems(2) by simp
qed

lemma sync_fold_row_ids:
  "foldl (sync_step e cid) (rows, added, n) xs = (rows', added', n') \<Longrightarrow>
   map square_invoice_id rows' = map square_invoice_id rows"
proof (induction xs arbitrary: rows added n)
  case Nil
  then show ?case by simp
next
  case (Cons x xs)
  obtain rows1 added1 n1 where st: "sync_step e cid (rows, added, n) x = (rows1, added1, n1)"
    by (metis prod_cases3)
  then have "map square_invoice_id rows1 = map square_invoice_id rows"
    by (auto simp: sync_step_def map_first_ids split: option.splits)
  then show ?case
    using Cons.IH [of rows1 added1 n1] Cons.prems st by simp
qed

lemma test_customer_found: "get_customer 7 test_db = Some webhook_test_customer"
  by (simp add: get_customer_def test_db_def by_id_def webhook_test_customer_def)

lemma admin_user_is_admin: "is_admin admin_user"
  by (simp add: is_admin_def admin_user_def res_get_def)

lemma first_sync:
  "sync_customer_invoices (sample_env 739923) admin_user two_invoices 7 test_db
     = (Inr [(''success'', JBool True), (''synced'', JNum 2)], synced_db)"
  unfolding synced_db_def
  by (simp add: sync_customer_invoices_def admin_user_is_admin test_customer_found
      two_invoices_def sync_step_def remote_invoice_def by_invoice_id_def)
    (simp add: webhook_test_customer_def test_db_def)

text \<open>
  C5 as the code has it. For a remote list whose invoice identifiers are pairwise
  distinct, a second run after a successful first one reports \<open>synced\<close> \<open>0\<close> and leaves
  every table as the first run left it; the first run keeps the rows it found where they
  were, and a table without repeated identifiers stays without.
\<close>

theorem sync_invoices_idempotent:
  assumes dist: "distinct (map sq_id (ir_invoices res))"
    and run: "sync_customer_invoices e1 current_user res customer_id d = (Inr r1, d1)"
  shows "sync_customer_invoices e2 current_user res customer_id d1
           = (Inr [(''success'', JBool True), (''synced'', JNum 0)], d1)
       \<and> map square_invoice_id (take (length (invoices d)) (invoices d1))
           = map square_invoice_id (invoices d)
       \<and> (distinct (map square_invoice_id (invoices d))
            \<longrightarrow> distinct (map square_invoice_id (invoices d1)))"
proof -
  from run obtain customer where adm: "is_admin current_user"
    and cust: "get_customer customer_id d = Some customer"
    and sq: "truthy_str (square_customer_id customer)"
    and ok: "ir_success res"
    by (auto simp: sync_customer_invoices_def split: if_splits option.splits)
  obtain rows added n where
    fold: "foldl (sync_step e1 (c_id customer)) (invoices d, [], 0) (ir_invoices res)
             = (rows, added, n)"
    by (metis prod_cases3)
  have d1: "d1 = d\<lparr>invoices := rows @ added\<rparr>"
    using run adm cust sq ok fold by (simp add: sync_customer_invoices_def)
  have cust1: "get_customer customer_id d1 = Some customer"
    using cust by (simp add: d1 get_customer_def)
  have "\<forall>x\<in>set (ir_invoices res). settled x (rows @ added)"
    using sync_fold_settles [OF dist _ fold] by simp
  then have again: "foldl (sync_step e2 (c_id customer)) (invoices d1, [], 0) (ir_invoices res)
                      = (invoices d1, [], 0)"
    by (simp add: d1 sync_fold_noop)
  have second: "sync_customer_invoices e2 current_user res customer_id d1
                  = (Inr [(''success'', JBool True), (''synced'', JNum 0)], d1)"
    using adm cust1 sq ok again by (simp add: sync_customer_invoices_def)
  have ids: "map square_invoice_id rows = map square_invoice_id (invoices d)"
    using sync_fold_row_ids [OF fold] .
  then have "length rows = length (invoices d)"
    using map_eq_imp_length_eq by blast
  then have place: "map square_invoice_id (take (length (invoices d)) (invoices d1))
                      = map square_invoice_id (invoices d)"
    by (simp add: d1 ids)
  have "distinct (map square_invoice_id (invoices d1))"
    if "distinct (map square_invoice_id (invoices d))"
    using sync_fold_distinct [OF _ dist _ fold] that by (simp add: d1)
  with second place show ?thesis by simp
qed

theorem sync_invoices_idempotent_witness:
  "distinct (map sq_id (ir_invoices two_invoices))
   \<and> fst (sync_customer_invoices (sample_env 739923) admin_user two_invoices 7 test_db)
        = Inr [(''success'', JBool True), (''synced'', JNum 2)]
   \<and> sync_customer_invoices (sample_env 739924) admin_user two_invoices 7 synced_db
        = (Inr [(''success'', JBool True), (''synced'', JNum 0)], synced_db)
   \<and> distinct (map square_invoice_id (invoices synced_db))"
proof -
  have dist: "distinct (map sq_id (ir_invoices two_invoices))"
    by (simp add: two_invoices_def remote_invoice_def)
  have "distinct (map square_invoice_id (invoices test_db))"
    by (simp add: test_db_def)
  with sync_invoices_idempotent [OF dist first_sync, of "sample_env 739924"] dist first_sync
  show ?thesis by simp
qed

text \<open>
  A remote list naming one invoice twice: the session does not flush before the query,
  so the first run adds two rows for it, and the second run rewrites the first of them.
\<close>

theorem sync_repeated_id_counterexample:
  "fst (sync_customer_invoices (sample_env 739923) admin_user same_invoice_twice 7 test_db)
     = Inr [(''success'', JBool True), (''synced'', JNum 2)]
   \<and> map square_invoice_id (invoices twice_db) = [Some ''inv:1'', Some ''inv:1'']
   \<and> \<not> distinct (map square_invoice_id (invoices twice_db))
   \<and> map inv_status (invoices twice_db) = [Some ''UNPAID'', Some ''PAID'']
   \<and> map inv_status (invoices (snd (sync_customer_invoices (sample_env 739923) admin_user
          same_invoice_twice 7 twice_db))) = [Some ''PAID'', Some ''PAID'']"
proof -
  have c1: "get_customer 7 twice_db = Some webhook_test_customer"
    by (simp add: twice_db_def sync_customer_invoices_def admin_user_is_admin
        test_customer_found split: prod.splits)
      (simp add: get_customer_def test_db_def by_id_def webhook_test_customer_def)
  have sq: "truthy_str (square_customer_id webhook_test_customer)"
    by (simp add: webhook_test_customer_def)
  have i1: "invoices twice_db =
     [new_inv (sample_env 739923) 7 (remote_invoice ''inv:1'' (Some 2999) None ''UNPAID''),
      new_inv (sample_env 739923) 7 (remote_invoice ''inv:1'' (Some 2999) None ''PAID'')]"
    by (simp add: twice_db_def sync_customer_invoices_def admin_user_is_admin
        test_customer_found sq same_invoice_twice_def sync_step_def)
      (simp add: webhook_test_customer_def test_db_def)
  show ?thesis
    by (simp add: sync_customer_invoices_def admin_user_is_admin test_customer_found c1 sq
        same_invoice_twice_def sync_step_def i1 split: prod.splits)
      (auto simp: new_inv_def remote_invoice_def by_invoice_id_def update_existing_def
        webhook_test_customer_def test_db_def)
qed

subsection \<open>The stored amount of an invoice whose computed amount is zero\<close>

lemma sync_fold_added_ids:
  "foldl (sync_step e cid) (rows, added, n) xs = (rows', added', n') \<Longrightarrow>
   set (map square_invoice_id added')
     \<subseteq> set (map square_invoice_id added) \<union> set (map sq_id xs)"
proof (induction xs arbitrary: rows added n)
  case Nil
  then show ?case by simp
next
  case (Cons x xs)
  obtain rows1 added1 n1 where st: "sync_step e cid (rows, added, n) x = (rows1, added1, n1)"
    by (metis prod_cases3)
  have rest: "foldl (sync_step e cid) (rows1, added1, n1) xs = (rows', added', n')"
    using Cons.prems st by simp
  have "set (map square_invoice_id added')
          \<subseteq> set (map square_invoice_id added1) \<union> set (map sq_id xs)"
    using Cons.IH [OF rest] .
  moreover have "set (map square_invoice_id added1)
          \<subseteq> insert (sq_id x) (set (map square_invoice_id added))"
    using sync_step_added_ids [OF st] .
  ultimately show ?case by auto
qed

lemma settled_amount:
  "settled x rows \<Longrightarrow>
   map_option inv_amount (find (by_invoice_id (sq_id x)) rows) = Some (invoice_amount x)"
proof -
  assume "settled x rows"
  then obtain r where f: "find (by_invoice_id (sq_id x)) rows = Some r"
    and u: "update_existing x r = r"
    by (auto simp: settled_def split: option.splits)
  have "inv_amount (update_existing x r) = invoice_amount x"
    by (simp add: update_existing_def)
  with f u show ?thesis by simp
qed

lemma zero_computed_amount:
  "first_computed_amount sq_inv = Some 0 \<Longrightarrow> next_payment_amount sq_inv = Some m \<Longrightarrow>
   invoice_amount sq_inv = of_int m / 100"
  by (auto simp: invoice_amount_def first_computed_amount_def next_payment_amount_def
      money_truthy_def empty_money_def Let_def split: option.splits list.splits)

text \<open>
  C10 as the code has it. When the first payment request's computed amount is \<open>0\<close> and the
  next-payment amount is \<open>m\<close>, the amount is \<open>m / 100\<close>; and when no other invoice of the
  remote list has the same identifier, the row that a successful synchronization leaves
  for that identifier stores \<open>m / 100\<close>, not \<open>0\<close>.
\<close>

theorem zero_computed_amount_falls_back:
  assumes zero: "first_computed_amount sq_inv = Some 0"
    and nxt: "next_payment_amount sq_inv = Some m"
    and list: "ir_invoices res = before @ sq_inv # after"
    and once: "sq_id sq_inv \<notin> set (map sq_id (before @ after))"
    and run: "sync_customer_invoices e current_user res customer_id d = (Inr r, d1)"
  shows "invoice_amount sq_inv = of_int m / 100
       \<and> map_option inv_amount (find (by_invoice_id (sq_id sq_inv)) (invoices d1))
           = Some (of_int m / 100)
       \<and> (m \<noteq> 0 \<longrightarrow>
            map_option inv_amount (find (by_invoice_id (sq_id sq_inv)) (invoices d1)) \<noteq> Some 0)"
proof -
  from run obtain customer where adm: "is_admin current_user"
    and cust: "get_customer customer_id d = Some customer"
    and sq: "truthy_str (square_customer_id customer)"
    and ok: "ir_success res"
    by (auto simp: sync_customer_invoices_def split: if_splits option.splits)
  let ?step = "sync_step e (c_id customer)"
  obtain rows added n where
    fold: "foldl ?step (invoices d, [], 0) (ir_invoices res) = (rows, added, n)"
    by (metis prod_cases3)
  have d1: "d1 = d\<lparr>invoices := rows @ added\<rparr>"
    using run adm cust sq ok fold by (simp add: sync_customer_invoices_def)
  obtain r0 a0 n0 where pre: "foldl ?step (invoices d, [], 0) before = (r0, a0, n0)"
    by (metis prod_cases3)
  obtain r1 a1 n1 where st: "?step (r0, a0, n0) sq_inv = (r1, a1, n1)"
    by (metis prod_cases3)
  have post: "foldl ?step (r1, a1, n1) after = (rows, added, n)"
    using fold pre st by (simp add: list)
  have "set (map square_invoice_id a0) \<subseteq> set (map sq_id before)"
    using sync_fold_added_ids [OF pre] by simp
  then have fresh: "sq_id sq_inv \<notin> set (map square_invoice_id a0)"
    using once by auto
  have "settled sq_inv (r1 @ a1)"
    using sync_step_settles [OF fresh st] .
  then have "settled sq_inv (rows @ added)"
    using sync_fold_keeps_settled [OF _ _ post] once by simp
  then have "map_option inv_amount (find (by_invoice_id (sq_id sq_inv)) (invoices d1))
               = Some (invoice_amount sq_inv)"
    by (simp add: d1 settled_amount)
  then have stored: "map_option inv_amount (find (by_invoice_id (sq_id sq_inv)) (invoices d1))
                      = Some (of_int m / 100)"
    by (simp only: zero_computed_amount [OF zero nxt])
  have "(of_int m / 100 :: rat) \<noteq> 0" if "m \<noteq> 0"
    using that by simp
  then show ?thesis
    unfolding stored by (simp add: zero_computed_amount [OF zero nxt])
qed

theorem zero_computed_amount_falls_back_witness:
  "first_computed_amount (remote_invoice ''inv:2'' (Some 0) (Some 1500) ''SCHEDULED'') = Some 0
   \<and> next_payment_amount (remote_invoice ''inv:2'' (Some 0) (Some 1500) ''SCHEDULED'') = Some 1500
   \<and> fst (sync_customer_invoices (sample_env 739923) admin_user two_invoices 7 test_db)
        = Inr [(''success'', JBool True), (''synced'', JNum 2)]
   \<and> map_option inv_amount (find (by_invoice_id (Some ''inv:2'')) (invoices synced_db)) = Some 15"
proof -
  let ?x = "remote_invoice ''inv:2'' (Some 0) (Some 1500) ''SCHEDULED''"
  have a: "first_computed_amount ?x = Some 0"
    and b: "next_payment_amount ?x = Some 1500"
    by (simp_all add: first_computed_amount_def next_payment_amount_def remote_invoice_def)
  have l: "ir_invoices two_invoices = [remote_invoice ''inv:1'' (Some 2999) None ''UNPAID''] @ ?x # []"
    by (simp add: two_invoices_def)
  have o: "sq_id ?x \<notin> set (map sq_id ([remote_invoice ''inv:1'' (Some 2999) None ''UNPAID''] @ []))"
    by (simp add: remote_invoice_def)
  have i: "sq_id ?x = Some ''inv:2''"
    by (simp add: remote_invoice_def)
  from zero_computed_amount_falls_back [OF a b l o first_sync] a b first_sync i
  show ?thesis by simp
qed

text \<open>
  The same invoice listed a second time with a computed amount of 700: the loop rewrites
  the row again, and the stored amount is 7.00 and not 15.00.
\<close>

theorem relisted_zero_amount_counterexample:
  "first_computed_amount (hd (ir_invoices relisted_invoice)) = Some 0
   \<and> next_payment_amount (hd (ir_invoices relisted_invoice)) = Some 1500
   \<and> fst (sync_customer_invoices (sample_env 739924) admin_user relisted_invoice 7
            stored_invoice_db)
        = Inr [(''success'', JBool True), (''synced'', JNum 0)]
   \<and> map square_invoice_id (invoices (snd (sync_customer_invoices (sample_env 739924)
          admin_user relisted_invoice 7 stored_invoice_db))) = [Some ''inv:2'']
   \<and> map inv_amount (invoices (snd (sync_customer_invoices (sample_env 739924)
          admin_user relisted_invoice 7 stored_invoice_db))) = [7]
   \<and> (7 :: rat) \<noteq> of_int 1500 / 100"
proof -
  have c: "get_customer 7 stored_invoice_db = Some webhook_test_customer"
    by (simp add: get_customer_def stored_invoice_db_def test_db_def by_id_def
        webhook_test_customer_def)
  have sq: "truthy_str (square_customer_id webhook_test_customer)"
    by (simp add: webhook_test_customer_def)
  have i: "invoices stored_invoice_db =
     [new_inv (sample_env 739923) 7 (remote_invoice ''inv:2'' (Some 0) (Some 1500) ''SCHEDULED'')]"
    by (simp add: stored_invoice_db_def)
  have h: "first_computed_amount (hd (ir_invoices relisted_invoice)) = Some 0"
    "next_payment_amount (hd (ir_invoices relisted_invoice)) = Some 1500"
    by (simp_all add: relisted_invoice_def first_computed_amount_def next_payment_amount_def
        remote_invoice_def)
  have run: "sync_customer_invoices (sample_env 739924) admin_user relisted_invoice 7
               stored_invoice_db
     = (Inr [(''success'', JBool True), (''synced'', JNum 0)],
        stored_invoice_db\<lparr>invoices :=
          [update_existing (remote_invoice ''inv:2'' (Some 700) None ''PAID'')
            (update_existing (remote_invoice ''inv:2'' (Some 0) (Some 1500) ''SCHEDULED'')
              (new_inv (sample_env 739923) 7
                 (remote_invoice ''inv:2'' (Some 0) (Some 1500) ''SCHEDULED'')))]\<rparr>)"
    by (simp add: sync_customer_invoices_def admin_user_is_admin c sq i)
       (simp add: relisted_invoice_def sync_step_def by_invoice_id_def new_inv_def
          remote_invoice_def update_existing_def)
  show ?thesis
    unfolding run
    by (simp add: h)
       (simp add: update_existing_def new_inv_def remote_invoice_def invoice_amount_def
          money_truthy_def)
qed

subsection \<open>Subscription lifecycle forwarding\<close>

lemma test_user: "get_db_user 7 test_db = Inr webhook_test_customer"
  by (simp add: get_db_user_def test_db_def by_id_def webhook_test_customer_def)

lemma subscription_logs_add_log [simp]:
  "subscription_logs (add_log l d) = subscription_logs d @ [l]"
  by (simp add: add_log_def)

lemma subscription_logs_set_customer [simp]:
  "subscription_logs (set_customer i c d) = subscription_logs d"
  by (simp add: set_customer_def)

lemma subscription_logs_payments [simp]:
  "subscription_logs (d\<lparr>payments := ps\<rparr>) = subscription_logs d"
  by simp

text \<open>
  A handler that raises leaves the store as it was; activate, pause, resume, cancel and
  the admin's cancel append one log row with their own tag when they succeed.
\<close>

lemma forwarding_failure_leaves_store:
  "fst (pause_sub today res uid d) = Inl e \<Longrightarrow> snd (pause_sub today res uid d) = d"
  "fst (resume_sub today res uid d) = Inl e \<Longrightarrow> snd (resume_sub today res uid d) = d"
  "fst (cancel_sub today res uid d) = Inl e \<Longrightarrow> snd (cancel_sub today res uid d) = d"
  "fst (change_plan res uid d) = Inl e \<Longrightarrow> snd (change_plan res uid d) = d"
  "fst (activate_sub today h1 h2 pv rc d) = Inl e \<Longrightarrow> snd (activate_sub today h1 h2 pv rc d) = d"
  "fst (cancel_customer_subscription today cu res i d) = Inl e \<Longrightarrow>
   snd (cancel_customer_subscription today cu res i d) = d"
  by (auto simp: pause_sub_def resume_sub_def cancel_sub_def change_plan_def activate_sub_def
      cancel_customer_subscription_def Let_def split: sum.splits if_splits option.splits)

lemma forwarding_success_logs_once:
  "fst (pause_sub today res uid d) = Inr r \<Longrightarrow>
   \<exists>l. subscription_logs (snd (pause_sub today res uid d)) = subscription_logs d @ [l]
       \<and> action l = ''PAUSE''"
  "fst (resume_sub today res uid d) = Inr r \<Longrightarrow>
   \<exists>l. subscription_logs (snd (resume_sub today res uid d)) = subscription_logs d @ [l]
       \<and> action l = ''RESUME''"
  "fst (cancel_sub today res uid d) = Inr r \<Longrightarrow>
   \<exists>l. subscription_logs (snd (cancel_sub today res uid d)) = subscription_logs d @ [l]
       \<and> action l = ''CANCEL''"
  "fst (activate_sub today h1 h2 pv rc d) = Inr r \<Longrightarrow>
   \<exists>l. subscription_logs (snd (activate_sub today h1 h2 pv rc d)) = subscription_logs d @ [l]
       \<and> action l = ''ACTIVATE''"
  "fst (cancel_customer_subscription today cu res i d) = Inr r \<Longrightarrow>
   \<exists>l. subscription_logs (snd (cancel_customer_subscription today cu res i d))
         = subscription_logs d @ [l] \<and> action l = ''CANCEL''"
  by (auto simp: pause_sub_def resume_sub_def cancel_sub_def activate_sub_def
      cancel_customer_subscription_def Let_def split: sum.splits if_splits option.splits)

lemma change_plan_store: "snd (change_plan res uid d) = d"
  by (simp add: change_plan_def split: sum.splits)

lemma find_by_id: "find (by_id i) cs = Some c \<Longrightarrow> c_id c = i"
  by (auto simp: by_id_def dest: find_Some_iff [THEN iffD1])

lemma get_customer_set_customer:
  "get_customer i d = Some c \<Longrightarrow> c_id c' = i \<Longrightarrow> get_customer i (set_customer i c' d) = Some c'"
  by (simp add: get_customer_def set_customer_def find_map_first by_id_def)

text \<open>Cancelling sets both columns, and the customer it leaves satisfies the invariant.\<close>

lemma cancel_sub_status_invariant:
  assumes "fst (cancel_sub today res uid d) = Inr r"
  shows "\<exists>c. get_customer uid (snd (cancel_sub today res uid d)) = Some c \<and> status_invariant c"
proof -
  from assms obtain user where u: "get_db_user uid d = Inr user"
    by (auto simp: cancel_sub_def split: sum.splits)
  then have g: "get_customer uid d = Some user" and i: "c_id user = uid"
    by (auto simp: get_db_user_def get_customer_def split: option.splits dest: find_by_id)
  from assms u show ?thesis
    using get_customer_set_customer [OF g, of "user\<lparr>subscription_active := False,
        subscription_status := ''CANCELED''\<rparr>"] i
    by (auto simp: cancel_sub_def status_invariant_def get_customer_def add_log_def
        split: if_splits)
qed

text \<open>
  C1 asks that after every lifecycle operation \<open>subscription_active\<close> is true exactly when
  the status is ACTIVE. \<open>pause_sub\<close> and \<open>resume_sub\<close> write the status only: pausing the
  active test customer leaves status PAUSED with \<open>subscription_active\<close> still true, and
  resuming a cancelled customer leaves status ACTIVE with \<open>subscription_active\<close> still
  false.
\<close>

theorem pause_resume_leave_active_flag:
  "status_invariant webhook_test_customer
   \<and> fst (pause_sub 739923 paused_answer 7 test_db) = Inr paused_answer
   \<and> customers (snd (pause_sub 739923 paused_answer 7 test_db))
        = [webhook_test_customer\<lparr>subscription_status := ''PAUSED''\<rparr>]
   \<and> \<not> list_all status_invariant (customers (snd (pause_sub 739923 paused_answer 7 test_db)))
   \<and> customers (snd (resume_sub 739924 paused_answer 7
         (snd (cancel_sub 739923 paused_answer 7 test_db))))
        = [webhook_test_customer\<lparr>subscription_active := False,
                                  subscription_status := ''ACTIVE''\<rparr>]
   \<and> \<not> list_all status_invariant (customers (snd (resume_sub 739924 paused_answer 7
         (snd (cancel_sub 739923 paused_answer 7 test_db)))))"
proof -
  have p: "pause_sub 739923 paused_answer 7 test_db =
      (Inr paused_answer,
       add_log \<lparr>log_customer_id = 7, log_subscription_id = Some ''sub_test_456'',
                action = ''PAUSE'', effective_date = 739923\<rparr>
         (set_customer 7 (webhook_test_customer\<lparr>subscription_status := ''PAUSED''\<rparr>) test_db))"
    by (simp add: pause_sub_def test_user)
       (simp add: webhook_test_customer_def paused_answer_def has_key_def)
  have c: "cancel_sub 739923 paused_answer 7 test_db =
      (Inr paused_answer,
       add_log \<lparr>log_customer_id = 7, log_subscription_id = Some ''sub_test_456'',
                action = ''CANCEL'', effective_date = 739923\<rparr>
         (set_customer 7 (webhook_test_customer\<lparr>subscription_active := False,
              subscription_status := ''CANCELED''\<rparr>) test_db))"
    by (simp add: cancel_sub_def test_user)
       (simp add: webhook_test_customer_def paused_answer_def res_get_def)
  have cs: "customers (snd (cancel_sub 739923 paused_answer 7 test_db)) =
      [webhook_test_customer\<lparr>subscription_active := False, subscription_status := ''CANCELED''\<rparr>]"
    unfolding c
    by (simp add: add_log_def set_customer_def test_db_def by_id_def webhook_test_customer_def)
  have u: "get_db_user 7 (snd (cancel_sub 739923 paused_answer 7 test_db)) =
      Inr (webhook_test_customer\<lparr>subscription_active := False, subscription_status := ''CANCELED''\<rparr>)"
    by (simp add: get_db_user_def cs by_id_def webhook_test_customer_def)
  have e: "\<not> has_key paused_answer ''errors''"
    by (simp add: paused_answer_def has_key_def)
  have r: "customers (snd (resume_sub 739924 paused_answer 7
         (snd (cancel_sub 739923 paused_answer 7 test_db))))
        = [webhook_test_customer\<lparr>subscription_active := False, subscription_status := ''ACTIVE''\<rparr>]"
    using e by (simp add: resume_sub_def u add_log_def set_customer_def cs)
       (simp add: webhook_test_customer_def by_id_def)
  show ?thesis
    by (simp add: p r)
       (simp add: status_invariant_def webhook_test_customer_def add_log_def set_customer_def
          test_db_def by_id_def)
qed

text \<open>
  C3 asks for exactly one log row after a successful change of plan. \<open>change_plan\<close>
  returns the platform's answer and leaves the store, the log included, as it was; the
  admin's route for the same change appends an ACTIVATE row.
\<close>

theorem change_plan_appends_no_log:
  "truthy_str (square_subscription_id webhook_test_customer)
   \<and> truthy (res_get plan_changed_answer ''success'')
   \<and> change_plan plan_changed_answer 7 plans_db = (Inr plan_changed_answer, plans_db)
   \<and> subscription_logs (snd (change_plan plan_changed_answer 7 plans_db)) = []
   \<and> map action (subscription_logs (snd (admin_change_subscription 739923 admin_user
         plan_changed_answer ''standard_plan_id'' 7 plans_db))) = [''ACTIVATE'']"
proof -
  have u: "get_db_user 7 plans_db = Inr webhook_test_customer"
    and g: "get_customer 7 plans_db = Some webhook_test_customer"
    by (simp_all add: get_db_user_def get_customer_def plans_db_def test_db_def by_id_def
        webhook_test_customer_def)
  have a: "truthy_str (square_subscription_id webhook_test_customer)"
    and b: "truthy (res_get plan_changed_answer ''success'')"
    by (simp_all add: webhook_test_customer_def plan_changed_answer_def res_get_def)
  have l: "subscription_logs plans_db = []"
    by (simp add: plans_db_def test_db_def)
  have adm: "is_admin admin_user"
    by (simp add: is_admin_def admin_user_def res_get_def)
  show ?thesis
    using a b
    by (simp add: change_plan_def u l admin_change_subscription_def adm g)
       (simp add: plans_db_def add_log_def set_customer_def test_db_def)
qed

end
